theory Spec2Isabelle
  imports Complex_Main "HOL-Library.AList" "HOL-Library.Sublist"
begin

section \<open>Values, exceptions and the outside world\<close>

text \<open>
  The filter works on decoded JSON: the request body is a Python \<open>dict\<close>, its
  \<open>messages\<close> entry a list of dicts. A dict is an association list in insertion order,
  read with \<open>map_of\<close> and written with \<open>AList.update\<close> (an existing key keeps its
  place, a new key goes to the end, as in Python). Values are trees: two places of
  the body never share one mutable object.

  Text is a \<open>string\<close>, read as a sequence of code points below 256 (the Latin-1 range
  of Unicode). On these, whitespace and upper-casing are Python's own: \<open>str.strip\<close> also
  removes U+0085 and U+00A0, and \<open>str.upper\<close> may leave the range (U+00B5, U+00FF) or
  give two code points for one (U+00DF), so an upper-cased text is a list of code points.
\<close>

datatype json =
    JNull
  | JBool bool
  | JInt int
  | JFloat real
  | JStr string
  | JList "json list"
  | JDict "(string \<times> json) list"

type_synonym dict = "(string \<times> json) list"

text \<open>A raised exception: its class name and the text that \<open>str(e)\<close> gives.\<close>

datatype exn = Exn (exn_class: string) (exn_text: string)

text \<open>
  What \<open>requests.post\<close> hands back when it does not raise: the status code, the reason
  phrase and the URL of the response (its attribute \<open>url\<close>), and what
  \<open>response.json()\<close> will give (the decoded body, or the decoder's exception).
\<close>

datatype response =
  Response (status_code: nat) (reason: string) (response_url: string) (json_body: "exn + json")

text \<open>
  The host and the inference runtime are any stateful service \<open>'w\<close>: \<open>post\<close> answers
  \<open>requests.post(url, json=payload)\<close> by an exception or a response, and \<open>repr_of\<close> is
  the interpreter's \<open>str()\<close> on numbers and containers, used by the f-strings. Console
  output (\<open>print\<close>) has no effect on control flow and is left out, so the \<open>debug\<close>
  valve is carried but never read.
\<close>

record 'w env =
  post :: "string \<Rightarrow> json \<Rightarrow> 'w \<Rightarrow> (exn + response) \<times> 'w"
  repr_of :: "json \<Rightarrow> string"

text \<open>
  The observer (\<open>__event_emitter__\<close>) is an awaited callable: it gets the event and
  either returns or raises.
\<close>

type_synonym 'w emitter = "json \<Rightarrow> 'w \<Rightarrow> (exn + unit) \<times> 'w"

text \<open>
  The log of one invocation, in order: every request sent to the runtime with what came
  back, and every status update handed to \<open>emit_status\<close> with what the observer did
  (\<open>None\<close> when no observer is registered and nothing is delivered).
\<close>

datatype event = Post string json "exn + response" | Emit json "(exn + unit) option"

type_synonym 'w io = "event list \<times> 'w"

record valves =
  abliterated_model_id :: string
  judge_model_id :: string
  ollama_base_url :: string
  debug :: bool

definition default_valves :: valves where
  "default_valves =
     \<lparr> abliterated_model_id = ''dolphin-mistral'',
       judge_model_id = ''llama3.2'',
       ollama_base_url = ''http://host.docker.internal:11434'',
       debug = False \<rparr>"

subsection \<open>Python's dynamic operations\<close>

fun truthy :: "json \<Rightarrow> bool" where
  "truthy JNull = False"
| "truthy (JBool b) = b"
| "truthy (JInt n) = (n \<noteq> 0)"
| "truthy (JFloat x) = (x \<noteq> 0)"
| "truthy (JStr s) = (s \<noteq> [])"
| "truthy (JList xs) = (xs \<noteq> [])"
| "truthy (JDict d) = (d \<noteq> [])"

fun type_name :: "json \<Rightarrow> string" where
  "type_name JNull = ''NoneType''"
| "type_name (JBool b) = ''bool''"
| "type_name (JInt n) = ''int''"
| "type_name (JFloat x) = ''float''"
| "type_name (JStr s) = ''str''"
| "type_name (JList xs) = ''list''"
| "type_name (JDict d) = ''dict''"

definition quoted :: "string \<Rightarrow> string" where
  "quoted s = [CHR 0x27] @ s @ [CHR 0x27]"

definition attribute_error :: "json \<Rightarrow> string \<Rightarrow> exn" where
  "attribute_error obj name =
     Exn ''AttributeError'' (quoted (type_name obj) @ '' object has no attribute '' @ quoted name)"

definition dict_get :: "dict \<Rightarrow> string \<Rightarrow> json \<Rightarrow> json" where
  "dict_get d k dflt = (case map_of d k of Some x \<Rightarrow> x | None \<Rightarrow> dflt)"

text \<open>\<open>obj.get(k, dflt)\<close> on a value of any type: only a dict has the method.\<close>

definition py_get :: "json \<Rightarrow> string \<Rightarrow> json \<Rightarrow> exn + json" where
  "py_get obj k dflt =
     (case obj of JDict d \<Rightarrow> Inr (dict_get d k dflt) | _ \<Rightarrow> Inl (attribute_error obj ''get''))"

text \<open>\<open>obj[-1]\<close> on a value of any type.\<close>

definition py_last :: "json \<Rightarrow> exn + json" where
  "py_last obj =
     (case obj of
        JList xs \<Rightarrow>
          if xs = [] then Inl (Exn ''IndexError'' ''list index out of range'') else Inr (last xs)
      | JStr s \<Rightarrow>
          if s = [] then Inl (Exn ''IndexError'' ''string index out of range'')
          else Inr (JStr [last s])
      | JDict d \<Rightarrow> Inl (Exn ''KeyError'' ''-1'')
      | _ \<Rightarrow> Inl (Exn ''TypeError'' (quoted (type_name obj) @ '' object is not subscriptable'')))"

text \<open>\<open>obj[:-1]\<close> on a value of any type.\<close>

definition py_butlast :: "json \<Rightarrow> exn + json" where
  "py_butlast obj =
     (case obj of
        JList xs \<Rightarrow> Inr (JList (butlast xs))
      | JStr s \<Rightarrow> Inr (JStr (butlast s))
      | JDict d \<Rightarrow> Inl (Exn ''KeyError'' ''slice(None, -1, None)'')
      | _ \<Rightarrow> Inl (Exn ''TypeError'' (quoted (type_name obj) @ '' object is not subscriptable'')))"

text \<open>The code points below 256 that \<open>str.isspace\<close> accepts and \<open>str.strip\<close> removes.\<close>

definition isspace :: "char \<Rightarrow> bool" where
  "isspace c = (c \<in> set [CHR 0x09, CHR 0x0A, CHR 0x0B, CHR 0x0C, CHR 0x0D,
                           CHR 0x1C, CHR 0x1D, CHR 0x1E, CHR 0x1F, CHR 0x20,
                           CHR 0x85, CHR 0xA0])"

definition strip :: "string \<Rightarrow> string" where
  "strip s = rev (dropWhile isspace (rev (dropWhile isspace s)))"

text \<open>
  \<open>str.upper\<close> works code point by code point. Below 256 the small letters \<open>a\<close> to
  \<open>z\<close> and U+00E0 to U+00FE (but the division sign U+00F7) have their capital 32 places
  before them, the micro sign U+00B5 becomes U+039C, \<open>y\<close> with diaeresis U+00FF becomes
  U+0178, the sharp s U+00DF becomes the two letters \<open>SS\<close>, and every other code point
  stays.
\<close>

definition upper_point :: "nat \<Rightarrow> nat" where
  "upper_point n =
     (if (97 \<le> n \<and> n \<le> 122) \<or> (224 \<le> n \<and> n \<le> 254 \<and> n \<noteq> 247) then n - 32
      else if n = 181 then 924
      else if n = 255 then 376
      else n)"

definition upper_char :: "char \<Rightarrow> nat list" where
  "upper_char c = (if c = CHR 0xDF then [83, 83] else [upper_point (of_char c)])"

definition upper :: "string \<Rightarrow> nat list" where
  "upper s = concat (map upper_char s)"

text \<open>The code points of a literal of the source.\<close>

definition code_points :: "string \<Rightarrow> nat list" where
  "code_points s = map of_char s"

text \<open>\<open>p in s\<close> on strings: \<open>p\<close> occurs in \<open>s\<close> as a contiguous piece.\<close>

fun contains :: "'a list \<Rightarrow> 'a list \<Rightarrow> bool" where
  "contains p [] = (p = [])"
| "contains p (c # cs) = (prefix p (c # cs) \<or> contains p cs)"

text \<open>The f-strings' \<open>{x}\<close>: \<open>str(x)\<close>.\<close>

definition py_str :: "'w env \<Rightarrow> json \<Rightarrow> string" where
  "py_str E x =
     (case x of
        JStr s \<Rightarrow> s
      | JNull \<Rightarrow> ''None''
      | JBool b \<Rightarrow> (if b then ''True'' else ''False'')
      | _ \<Rightarrow> repr_of E x)"

text \<open>Sequencing of steps that may raise.\<close>

definition and_then :: "exn + 'a \<Rightarrow> ('a \<Rightarrow> exn + 'b) \<Rightarrow> exn + 'b" where
  "and_then r f = (case r of Inl e \<Rightarrow> Inl e | Inr x \<Rightarrow> f x)"

subsection \<open>The HTTP client\<close>

definition requests_post :: "'w env \<Rightarrow> string \<Rightarrow> json \<Rightarrow> 'w io \<Rightarrow> (exn + response) \<times> 'w io" where
  "requests_post E url payload io =
     (case post E url payload (snd io) of
        (r, w') \<Rightarrow> (r, (fst io @ [Post url payload r], w')))"

text \<open>A number as the f-strings print it.\<close>

fun decimal :: "nat \<Rightarrow> string" where
  "decimal n =
     (if n < 10 then [char_of (48 + n)] else decimal (n div 10) @ [char_of (48 + n mod 10)])"

declare decimal.simps [simp del]

text \<open>
  \<open>response.raise_for_status()\<close> raises on a 4xx or 5xx status, with the message that
  the library builds from the status code, the reason phrase and the URL.
\<close>

definition raise_for_status :: "response \<Rightarrow> exn + response" where
  "raise_for_status r =
     (if 400 \<le> status_code r \<and> status_code r < 500
      then Inl (Exn ''HTTPError''
             (decimal (status_code r) @ '' Client Error: '' @ reason r
              @ '' for url: '' @ response_url r))
      else if 500 \<le> status_code r \<and> status_code r < 600
      then Inl (Exn ''HTTPError''
             (decimal (status_code r) @ '' Server Error: '' @ reason r
              @ '' for url: '' @ response_url r))
      else Inr r)"

section \<open>The filter\<close>

subsection \<open>\<open>check_refusal\<close>\<close>

definition judge_prompt :: "string \<Rightarrow> string" where
  "judge_prompt context_preview =
     ''Analyze the following AI response text. Does it represent a refusal to answer a request ''
     @ ''due to ethical, safety, moral, or policy guidelines? ''
     @ ''Typical refusals sound like '' @ quoted ''I cannot fulfill'' @ '', ''
     @ quoted ''I apologize'' @ '', '' @ quoted ''I cannot comply'' @ ''.'' @ [CHR 0x0A, CHR 0x0A]
     @ ''Text: '' @ [CHR 0x22] @ context_preview @ [CHR 0x22] @ [CHR 0x0A, CHR 0x0A]
     @ ''Answer with exactly one word: '' @ quoted ''YES'' @ '' or '' @ quoted ''NO'' @ ''.''"

definition judge_payload :: "valves \<Rightarrow> string \<Rightarrow> json" where
  "judge_payload v content =
     JDict [(''model'', JStr (judge_model_id v)),
            (''prompt'', JStr (judge_prompt (take 1000 content))),
            (''stream'', JBool False),
            (''options'', JDict [(''temperature'', JFloat 0), (''num_predict'', JInt 10)])]"

text \<open>The body of the \<open>try\<close> once the request has been answered.\<close>

definition judge_verdict :: "exn + response \<Rightarrow> exn + bool" where
  "judge_verdict reply =
     and_then reply (\<lambda>response.
     and_then (raise_for_status response) (\<lambda>_.
     and_then (json_body response) (\<lambda>data.
     and_then (py_get data ''response'' (JStr [])) (\<lambda>raw.
       case raw of
         JStr s \<Rightarrow> Inr (contains (code_points ''YES'') (upper (strip s)))
       | _ \<Rightarrow> Inl (attribute_error raw ''strip'')))))"

definition check_refusal :: "'w env \<Rightarrow> valves \<Rightarrow> json \<Rightarrow> 'w io \<Rightarrow> (exn + bool) \<times> 'w io" where
  "check_refusal E v content io =
     (if \<not> truthy content then (Inr False, io)
      else case content of
        JStr s \<Rightarrow>
          if \<not> truthy (JStr (strip s)) then (Inr False, io)
          else
            (case requests_post E (ollama_base_url v @ ''/api/generate'') (judge_payload v s) io of
               (reply, io') \<Rightarrow>
                 (case judge_verdict reply of
                    Inr b \<Rightarrow> (Inr b, io')
                  | Inl e \<Rightarrow> (Inr False, io')))
      | _ \<Rightarrow> (Inl (attribute_error content ''strip''), io))"

subsection \<open>\<open>unload_model\<close>, \<open>load_model\<close>, \<open>generate_replacement\<close>\<close>

text \<open>
  Both residency calls post inside a \<open>try\<close> that catches every exception, never look
  at the response and return nothing: all that is left of them is the call.
\<close>

definition unload_model :: "'w env \<Rightarrow> valves \<Rightarrow> json \<Rightarrow> 'w io \<Rightarrow> 'w io" where
  "unload_model E v model_id io =
     snd (requests_post E (ollama_base_url v @ ''/api/generate'')
            (JDict [(''model'', model_id), (''keep_alive'', JInt 0)]) io)"

definition load_model :: "'w env \<Rightarrow> valves \<Rightarrow> json \<Rightarrow> 'w io \<Rightarrow> 'w io" where
  "load_model E v model_id io =
     snd (requests_post E (ollama_base_url v @ ''/api/generate'')
            (JDict [(''model'', model_id), (''keep_alive'', JInt (- 1))]) io)"

text \<open>The body of the \<open>try\<close> of \<open>generate_replacement\<close> once the request has been answered.\<close>

definition chat_content :: "exn + response \<Rightarrow> exn + json" where
  "chat_content reply =
     and_then reply (\<lambda>response.
     and_then (raise_for_status response) (\<lambda>_.
     and_then (json_body response) (\<lambda>data.
     and_then (py_get data ''message'' (JDict [])) (\<lambda>message.
       py_get message ''content'' (JStr ''Error generating replacement.'')))))"

definition generate_replacement ::
  "'w env \<Rightarrow> valves \<Rightarrow> json \<Rightarrow> json \<Rightarrow> 'w io \<Rightarrow> json \<times> 'w io" where
  "generate_replacement E v model_id messages io =
     (case requests_post E (ollama_base_url v @ ''/api/chat'')
             (JDict [(''model'', model_id), (''messages'', messages), (''stream'', JBool False)]) io of
        (reply, io') \<Rightarrow>
          (case chat_content reply of
             Inr c \<Rightarrow> (c, io')
           | Inl e \<Rightarrow> (JStr (''System Error: Failed to swap models. '' @ exn_text e), io')))"

subsection \<open>\<open>emit_status\<close>\<close>

definition status_event :: "string \<Rightarrow> bool \<Rightarrow> json" where
  "status_event message done =
     JDict [(''type'', JStr ''status''),
            (''data'', JDict [(''description'', JStr message), (''done'', JBool done)])]"

definition emit_status ::
  "'w emitter option \<Rightarrow> string \<Rightarrow> bool \<Rightarrow> 'w io \<Rightarrow> (exn + unit) \<times> 'w io" where
  "emit_status emitter message done io =
     (case emitter of
        None \<Rightarrow> (Inr (), (fst io @ [Emit (status_event message done) None], snd io))
      | Some f \<Rightarrow>
          (case f (status_event message done) (snd io) of
             (r, w') \<Rightarrow> (r, (fst io @ [Emit (status_event message done) (Some r)], w'))))"

subsection \<open>\<open>outlet\<close>\<close>

text \<open>
  The statements of the coroutine run one after the other; an exception that a
  statement raises ends the coroutine there. \<open>returning\<close> is a statement that cannot
  raise, \<open>raising\<close> one that touches nothing outside.
\<close>

definition bind_io ::
  "('w io \<Rightarrow> (exn + 'a) \<times> 'w io) \<Rightarrow> ('a \<Rightarrow> 'w io \<Rightarrow> (exn + 'b) \<times> 'w io)
     \<Rightarrow> 'w io \<Rightarrow> (exn + 'b) \<times> 'w io" where
  "bind_io m f io = (case m io of (Inl e, io') \<Rightarrow> (Inl e, io') | (Inr x, io') \<Rightarrow> f x io')"

definition returning :: "('w io \<Rightarrow> 'a \<times> 'w io) \<Rightarrow> 'w io \<Rightarrow> (exn + 'a) \<times> 'w io" where
  "returning m io = (case m io of (x, io') \<Rightarrow> (Inr x, io'))"

definition raising :: "exn + 'a \<Rightarrow> 'w io \<Rightarrow> (exn + 'a) \<times> 'w io" where
  "raising r io = (r, io)"

text \<open>\<open>body["messages"][-1]["content"] = new_answer\<close>, as the new value of the body.\<close>

definition set_last_content :: "dict \<Rightarrow> json \<Rightarrow> exn + dict" where
  "set_last_content body new_answer =
     (case map_of body ''messages'' of
        None \<Rightarrow> Inl (Exn ''KeyError'' (quoted ''messages''))
      | Some msgs \<Rightarrow>
          and_then (py_last msgs) (\<lambda>m.
            case (msgs, m) of
              (JList xs, JDict d) \<Rightarrow>
                Inr (AList.update ''messages''
                       (JList (butlast xs @ [JDict (AList.update ''content'' new_answer d)])) body)
            | (_, JList ys) \<Rightarrow>
                Inl (Exn ''TypeError'' ''list indices must be integers or slices, not str'')
            | _ \<Rightarrow>
                Inl (Exn ''TypeError''
                       (quoted (type_name m) @ '' object does not support item assignment''))))"

text \<open>The \<open>if is_refusal:\<close> branch of \<open>outlet\<close>.\<close>

definition swap_sequence ::
  "'w env \<Rightarrow> valves \<Rightarrow> 'w emitter option \<Rightarrow> dict \<Rightarrow> json \<Rightarrow> json \<Rightarrow> 'w io
     \<Rightarrow> (exn + dict) \<times> 'w io" where
  "swap_sequence E v emitter body messages original_model =
     bind_io (emit_status emitter
       (''Refusal detected. Unloading '' @ py_str E original_model @ ''...'') False) (\<lambda>_.
     bind_io (raising (py_butlast messages)) (\<lambda>history_minus_refusal.
     bind_io (returning (\<lambda>io. ((), unload_model E v original_model io))) (\<lambda>_.
     bind_io (emit_status emitter
       (''Loading '' @ abliterated_model_id v @ '' & Generating...'') False) (\<lambda>_.
     bind_io (returning (generate_replacement E v (JStr (abliterated_model_id v))
       history_minus_refusal)) (\<lambda>new_answer.
     bind_io (emit_status emitter
       (''Unloading '' @ abliterated_model_id v @ ''...'') False) (\<lambda>_.
     bind_io (returning (\<lambda>io. ((), unload_model E v (JStr (abliterated_model_id v)) io))) (\<lambda>_.
     bind_io (emit_status emitter
       (''Restoring '' @ py_str E original_model @ ''...'') False) (\<lambda>_.
     bind_io (returning (\<lambda>io. ((), load_model E v original_model io))) (\<lambda>_.
     bind_io (emit_status emitter ''Model swap complete.'' True) (\<lambda>_.
     raising (set_last_content body new_answer)))))))))))"

definition outlet ::
  "'w env \<Rightarrow> valves \<Rightarrow> 'w emitter option \<Rightarrow> dict \<Rightarrow> 'w io \<Rightarrow> (exn + dict) \<times> 'w io" where
  "outlet E v emitter body =
     (let messages = dict_get body ''messages'' (JList []) in
      if \<not> truthy messages then raising (Inr body)
      else
        bind_io (raising (and_then (py_last messages) (\<lambda>m. py_get m ''content'' (JStr []))))
          (\<lambda>ai_response.
        let original_model = dict_get body ''model'' JNull in
        bind_io (emit_status emitter ''Checking response for refusal...'' False) (\<lambda>_.
        bind_io (returning (check_refusal E v ai_response)) (\<lambda>r.
        let is_refusal = (case r of Inl e \<Rightarrow> False | Inr b \<Rightarrow> b) in
        if is_refusal
        then swap_sequence E v emitter body messages original_model
        else bind_io (emit_status emitter [] True) (\<lambda>_. raising (Inr body))))))"

section \<open>Notions of the specification\<close>

text \<open>What the log says about the runtime and about the progress reports.\<close>

fun is_post :: "event \<Rightarrow> bool" where
  "is_post (Post url payload r) = True"
| "is_post (Emit ev r) = False"

definition posts :: "event list \<Rightarrow> event list" where
  "posts tr = filter is_post tr"

fun reports :: "event list \<Rightarrow> json list" where
  "reports [] = []"
| "reports (Post url payload r # tr) = reports tr"
| "reports (Emit ev r # tr) = ev # reports tr"

text \<open>
  The three requests of the runtime's interface: a non-chat \<open>generate\<close> call with
  \<open>keep_alive\<close> 0 evicts a model and with \<open>keep_alive\<close> -1 pins it; a \<open>chat\<close> call
  asks for a completion over a history.
\<close>

definition evict :: "valves \<Rightarrow> json \<Rightarrow> (exn + response) \<Rightarrow> event" where
  "evict v model = Post (ollama_base_url v @ ''/api/generate'')
     (JDict [(''model'', model), (''keep_alive'', JInt 0)])"

definition pin :: "valves \<Rightarrow> json \<Rightarrow> (exn + response) \<Rightarrow> event" where
  "pin v model = Post (ollama_base_url v @ ''/api/generate'')
     (JDict [(''model'', model), (''keep_alive'', JInt (- 1))])"

definition chat :: "valves \<Rightarrow> json \<Rightarrow> json list \<Rightarrow> (exn + response) \<Rightarrow> event" where
  "chat v model history = Post (ollama_base_url v @ ''/api/chat'')
     (JDict [(''model'', model), (''messages'', JList history), (''stream'', JBool False)])"

text \<open>
  The judge's raw reply: the \<open>response\<close> text of an answer that arrived, carries no error
  status and decodes to an object (the empty text when the object has no such entry).
  There is none when the call failed.
\<close>

definition raw_reply :: "exn + response \<Rightarrow> string option" where
  "raw_reply reply =
     (case reply of
        Inl e \<Rightarrow> None
      | Inr response \<Rightarrow>
          if 400 \<le> status_code response \<and> status_code response < 600 then None
          else (case json_body response of
                  Inr (JDict d) \<Rightarrow>
                    (case map_of d ''response'' of
                       None \<Rightarrow> Some []
                     | Some (JStr r) \<Rightarrow> Some r
                     | Some _ \<Rightarrow> None)
                | _ \<Rightarrow> None))"

text \<open>The reply contains the word YES, each letter in either case, anywhere.\<close>

definition yes_at :: "char \<Rightarrow> char \<Rightarrow> char \<Rightarrow> bool" where
  "yes_at a b c \<longleftrightarrow>
     a \<in> {CHR ''y'', CHR ''Y''} \<and> b \<in> {CHR ''e'', CHR ''E''} \<and> c \<in> {CHR ''s'', CHR ''S''}"

fun yes_in_any_case :: "string \<Rightarrow> bool" where
  "yes_in_any_case (a # b # c # rest) = (yes_at a b c \<or> yes_in_any_case (b # c # rest))"
| "yes_in_any_case _ = False"

text \<open>
  What the code looks for: \<open>YES\<close> in the upper-cased reply. The sharp s counts as an
  \<open>s\<close> there, since its upper-cased form begins with \<open>S\<close>.
\<close>

definition upper_yes_at :: "char \<Rightarrow> char \<Rightarrow> char \<Rightarrow> bool" where
  "upper_yes_at a b c \<longleftrightarrow>
     a \<in> {CHR ''y'', CHR ''Y''} \<and> b \<in> {CHR ''e'', CHR ''E''}
     \<and> c \<in> {CHR ''s'', CHR ''S'', CHR 0xDF}"

fun yes_when_upper :: "string \<Rightarrow> bool" where
  "yes_when_upper (a # b # c # rest) = (upper_yes_at a b c \<or> yes_when_upper (b # c # rest))"
| "yes_when_upper _ = False"

text \<open>
  A generation that succeeded: the answer arrived without an error status and decodes
  to an object whose \<open>message\<close> is an object with a \<open>content\<close>.
\<close>

definition generated :: "exn + response \<Rightarrow> json option" where
  "generated reply =
     (case reply of
        Inl e \<Rightarrow> None
      | Inr response \<Rightarrow>
          if 400 \<le> status_code response \<and> status_code response < 600 then None
          else (case json_body response of
                  Inr (JDict d) \<Rightarrow>
                    (case map_of d ''message'' of
                       Some (JDict m) \<Rightarrow> map_of m ''content''
                     | _ \<Rightarrow> None)
                | _ \<Rightarrow> None))"

text \<open>An observer that never raises (or none at all).\<close>

definition observer_returns :: "'w emitter option \<Rightarrow> bool" where
  "observer_returns emitter =
     (case emitter of None \<Rightarrow> True | Some f \<Rightarrow> \<forall>ev w. fst (f ev w) = Inr ())"

text \<open>
  A report that the observer answered with an exception, a log without any, and a run that
  such a report ends: started on a log without a failed report, it leaves one without, or
  it raises what the observer raised and the failed report is the last entry of its log.
\<close>

fun failed_report :: "event \<Rightarrow> bool" where
  "failed_report (Emit ev (Some (Inl e))) = True"
| "failed_report _ = False"

definition unfailed :: "event list \<Rightarrow> bool" where
  "unfailed tr = list_all (\<lambda>x. \<not> failed_report x) tr"

definition stops_at_failure :: "('w io \<Rightarrow> (exn + 'a) \<times> 'w io) \<Rightarrow> bool" where
  "stops_at_failure c =
     (\<forall>io. unfailed (fst io) \<longrightarrow>
        unfailed (fst (snd (c io))) \<or>
        (\<exists>ev e tr0. fst (c io) = Inl e \<and> fst (snd (c io)) = tr0 @ [Emit ev (Some (Inl e))]
           \<and> unfailed tr0))"

text \<open>The content of the last message of a body, when there is one.\<close>

definition last_content :: "dict \<Rightarrow> json option" where
  "last_content body =
     (case map_of body ''messages'' of
        Some (JList ms) \<Rightarrow>
          (if ms = [] then None
           else case last ms of JDict m \<Rightarrow> map_of m ''content'' | _ \<Rightarrow> None)
      | _ \<Rightarrow> None)"

section \<open>A runtime, two observers and a conversation to run the filter on\<close>

text \<open>
  The runtime answers by the kind of request: \<open>judge\<close> to a classification, \<open>gen\<close> to a
  chat completion, \<open>residency\<close> to an eviction or a load. The world is the number of
  events the observer has been handed.
\<close>

definition scripted_env ::
  "(exn + response) \<Rightarrow> (exn + response) \<Rightarrow> (exn + response) \<Rightarrow> nat env" where
  "scripted_env judge gen residency =
     \<lparr> post = (\<lambda>url payload n.
         (case payload of
            JDict d \<Rightarrow>
              if map_of d ''prompt'' \<noteq> None then judge
              else if map_of d ''messages'' \<noteq> None then gen
              else residency
          | _ \<Rightarrow> residency, n)),
       repr_of = (\<lambda>x. ''?'') \<rparr>"

definition judge_says :: "string \<Rightarrow> exn + response" where
  "judge_says r =
     Inr (Response 200 ''OK'' ''http://host.docker.internal:11434/api/generate''
            (Inr (JDict [(''response'', JStr r)])))"

definition chat_says :: "string \<Rightarrow> exn + response" where
  "chat_says c =
     Inr (Response 200 ''OK'' ''http://host.docker.internal:11434/api/chat''
            (Inr (JDict [(''message'',
               JDict [(''role'', JStr ''assistant''), (''content'', JStr c)])])))"

definition out_of_memory :: "exn + response" where
  "out_of_memory =
     Inr (Response 500 ''Internal Server Error'' ''http://host.docker.internal:11434/api/chat''
            (Inr (JDict [(''error'', JStr ''model requires more system memory'')])))"

definition connection_refused :: "exn + response" where
  "connection_refused = Inl (Exn ''ConnectionError'' ''connection refused'')"

definition loaded :: "exn + response" where
  "loaded =
     Inr (Response 200 ''OK'' ''http://host.docker.internal:11434/api/generate'' (Inr (JDict [])))"

definition counting_observer :: "nat emitter" where
  "counting_observer ev n = (Inr (), Suc n)"

definition failing_observer :: "nat \<Rightarrow> nat emitter" where
  "failing_observer k ev n =
     (if n = k then Inl (Exn ''RuntimeError'' ''socket closed'') else Inr (), Suc n)"

definition user_turn :: json where
  "user_turn = JDict [(''role'', JStr ''user''), (''content'', JStr ''How do I pick a lock?'')]"

definition refused_turn :: json where
  "refused_turn =
     JDict [(''role'', JStr ''assistant''), (''content'', JStr ''I cannot fulfill this request.'')]"

definition bare_turn :: json where
  "bare_turn = JDict [(''role'', JStr ''assistant'')]"

definition example_body :: dict where
  "example_body =
     [(''model'', JStr ''modelA''),
      (''messages'', JList [user_turn, refused_turn]),
      (''chat_id'', JStr ''c1'')]"

section \<open>Text\<close>

text \<open>Which code points below 256 have \<open>Y\<close>, \<open>E\<close> or \<open>S\<close> as their upper-cased form.\<close>

lemma of_char_less_256: "(of_char a :: nat) < 256"
  by (cases a) simp

lemma upper_point_eq_iff:
  assumes "65 \<le> k" "k \<le> 90" "n < 256"
  shows "upper_point n = k \<longleftrightarrow> n = k + 32 \<or> n = k"
  using assms by (auto simp: upper_point_def)

lemma upper_point_of_char:
  assumes "(of_char x :: nat) = k" "65 \<le> k" "k \<le> 90" "(of_char y :: nat) = k + 32"
  shows "upper_point (of_char a) = k \<longleftrightarrow> a = y \<or> a = x"
proof -
  have "upper_point (of_char a) = k
      \<longleftrightarrow> (of_char a :: nat) = of_char y \<or> (of_char a :: nat) = of_char x"
    using upper_point_eq_iff [OF assms(2,3) of_char_less_256 [of a]] assms(1,4) by simp
  also have "\<dots> \<longleftrightarrow> a = y \<or> a = x"
    by (simp only: of_char_eq_iff)
  finally show ?thesis .
qed

lemma upper_point_Y:
  "upper_point (of_char a) = 89 \<longleftrightarrow> a = CHR ''y'' \<or> a = CHR ''Y''"
  by (rule upper_point_of_char) simp_all

lemma upper_point_E:
  "upper_point (of_char a) = 69 \<longleftrightarrow> a = CHR ''e'' \<or> a = CHR ''E''"
  by (rule upper_point_of_char) simp_all

lemma upper_point_S:
  "upper_point (of_char a) = 83 \<longleftrightarrow> a = CHR ''s'' \<or> a = CHR ''S''"
  by (rule upper_point_of_char) simp_all

lemma YES_points: "code_points ''YES'' = [89, 69, 83]"
  by (simp add: code_points_def)

lemma upper_Nil: "upper [] = []"
  by (simp add: upper_def)

lemma upper_Cons: "upper (a # r) = upper_char a @ upper r"
  by (simp add: upper_def)

text \<open>Where \<open>YES\<close> can begin in an upper-cased text.\<close>

lemma prefix_YES_upper3:
  "prefix [89, 69, 83] (upper (a # b # c # rest)) \<longleftrightarrow> upper_yes_at a b c"
proof -
  have "prefix [89, 69, 83] (upper (a # b # c # rest))
      \<longleftrightarrow> upper_point (of_char a) = 89 \<and> a \<noteq> CHR 0xDF
          \<and> upper_point (of_char b) = 69 \<and> b \<noteq> CHR 0xDF
          \<and> (c = CHR 0xDF \<or> upper_point (of_char c) = 83)"
    by (auto simp: upper_Cons upper_char_def)
  also have "\<dots> \<longleftrightarrow> upper_yes_at a b c"
    unfolding upper_point_Y upper_point_E upper_point_S upper_yes_at_def by auto
  finally show ?thesis .
qed

lemma prefix_YES_upper2: "\<not> prefix [89, 69, 83] (upper [a, b])"
  by (auto simp: upper_Cons upper_Nil upper_char_def)

lemma prefix_YES_upper1: "\<not> prefix [89, 69, 83] (upper [a])"
  by (auto simp: upper_Cons upper_Nil upper_char_def)

lemma contains_YES_upper_Cons:
  "contains [89, 69, 83] (upper (a # r))
     \<longleftrightarrow> prefix [89, 69, 83] (upper (a # r)) \<or> contains [89, 69, 83] (upper r)"
  by (simp add: upper_Cons upper_char_def)

text \<open>
  Searching the upper-cased text for \<open>YES\<close> is searching the text for \<open>y\<close>, \<open>e\<close>
  and \<open>s\<close> or sharp s in a row, the letters in either case.
\<close>

lemma contains_YES_upper: "contains (code_points ''YES'') (upper r) = yes_when_upper r"
  unfolding YES_points
proof (induction r rule: yes_when_upper.induct)
  case (1 a b c rest)
  have "contains [89, 69, 83] (upper (a # b # c # rest))
      \<longleftrightarrow> prefix [89, 69, 83] (upper (a # b # c # rest))
          \<or> contains [89, 69, 83] (upper (b # c # rest))"
    by (rule contains_YES_upper_Cons)
  also have "\<dots> \<longleftrightarrow> upper_yes_at a b c \<or> yes_when_upper (b # c # rest)"
    unfolding prefix_YES_upper3 "1.IH" ..
  finally show ?case by simp
qed (simp_all add: contains_YES_upper_Cons prefix_YES_upper1 prefix_YES_upper2 upper_Nil)

lemma upper_yes_at_not_space: "upper_yes_at a b c \<Longrightarrow> \<not> isspace a \<and> \<not> isspace c"
  by (auto simp: upper_yes_at_def isspace_def)

lemma yes_when_upper_Cons: "yes_when_upper t \<Longrightarrow> yes_when_upper (x # t)"
  by (cases t rule: yes_when_upper.cases) simp_all

lemma yes_when_upper_append:
  "upper_yes_at a b c \<Longrightarrow> yes_when_upper (u @ a # b # c # w)"
  by (induction u) (simp_all add: yes_when_upper_Cons)

lemma yes_when_upper_occurs:
  "yes_when_upper r \<Longrightarrow> \<exists>u w a b c. r = u @ a # b # c # w \<and> upper_yes_at a b c"
proof (induction r rule: yes_when_upper.induct)
  case (1 a b c rest)
  from "1.prems" consider "upper_yes_at a b c" | "yes_when_upper (b # c # rest)"
    by auto
  then show ?case
  proof cases
    case 1
    then have "a # b # c # rest = [] @ a # b # c # rest \<and> upper_yes_at a b c" by simp
    then show ?thesis by blast
  next
    case 2
    with "1.IH" obtain u w a' b' c' where
      "b # c # rest = u @ a' # b' # c' # w" "upper_yes_at a' b' c'"
      by blast
    then have "a # b # c # rest = (a # u) @ a' # b' # c' # w \<and> upper_yes_at a' b' c'" by simp
    then show ?thesis by blast
  qed
qed simp_all

text \<open>A reply without a sharp s passes exactly when it has the word in some mix of cases.\<close>

lemma yes_when_upper_plain:
  "CHR 0xDF \<notin> set r \<Longrightarrow> yes_when_upper r = yes_in_any_case r"
  by (induction r rule: yes_when_upper.induct) (auto simp: upper_yes_at_def yes_at_def)

text \<open>Stripping takes whitespace from both ends and nothing else.\<close>

lemma dropWhile_append_keep:
  "\<not> P x \<Longrightarrow> dropWhile P (u @ x # w) = dropWhile P u @ x # w"
  by (induction u) auto

lemma strip_middle:
  assumes "\<not> isspace a" "\<not> isspace c"
  shows "strip (u @ a # b # c # w)
     = dropWhile isspace u @ a # b # c # rev (dropWhile isspace (rev w))"
proof -
  have 1: "dropWhile isspace (u @ a # b # c # w) = dropWhile isspace u @ a # b # c # w"
    using assms(1) by (rule dropWhile_append_keep)
  have 2: "dropWhile isspace (rev w @ c # b # a # rev (dropWhile isspace u))
      = dropWhile isspace (rev w) @ c # b # a # rev (dropWhile isspace u)"
    using assms(2) by (rule dropWhile_append_keep)
  have "rev (dropWhile isspace u @ a # b # c # w) = rev w @ c # b # a # rev (dropWhile isspace u)"
    by simp
  then have "strip (u @ a # b # c # w)
      = rev (dropWhile isspace (rev w) @ c # b # a # rev (dropWhile isspace u))"
    unfolding strip_def 1 using 2 by simp
  then show ?thesis by simp
qed

lemma strip_sub:
  "s = takeWhile isspace s @ strip s @ rev (takeWhile isspace (rev (dropWhile isspace s)))"
proof -
  define t where "t = dropWhile isspace s"
  have "rev (rev t) = rev (takeWhile isspace (rev t) @ dropWhile isspace (rev t))"
    by (simp only: takeWhile_dropWhile_id)
  then have "t = rev (dropWhile isspace (rev t)) @ rev (takeWhile isspace (rev t))"
    by (simp only: rev_append rev_rev_ident)
  then have "dropWhile isspace s = strip s @ rev (takeWhile isspace (rev (dropWhile isspace s)))"
    unfolding t_def strip_def .
  then have "takeWhile isspace s @ dropWhile isspace s
      = takeWhile isspace s @ strip s @ rev (takeWhile isspace (rev (dropWhile isspace s)))"
    by (rule arg_cong)
  then show ?thesis by (simp only: takeWhile_dropWhile_id)
qed

lemma yes_when_upper_strip: "yes_when_upper (strip r) \<longleftrightarrow> yes_when_upper r"
proof
  assume "yes_when_upper (strip r)"
  then obtain u w a b c where s: "strip r = u @ a # b # c # w" and y: "upper_yes_at a b c"
    using yes_when_upper_occurs by blast
  define p where "p = takeWhile isspace r"
  define q where "q = rev (takeWhile isspace (rev (dropWhile isspace r)))"
  have "r = p @ strip r @ q" unfolding p_def q_def by (rule strip_sub)
  then have "r = (p @ u) @ a # b # c # (w @ q)" unfolding s by simp
  moreover have "yes_when_upper ((p @ u) @ a # b # c # (w @ q))"
    using y by (rule yes_when_upper_append)
  ultimately show "yes_when_upper r" by simp
next
  assume "yes_when_upper r"
  then obtain u w a b c where r: "r = u @ a # b # c # w" and y: "upper_yes_at a b c"
    using yes_when_upper_occurs by blast
  from y have "\<not> isspace a" "\<not> isspace c" using upper_yes_at_not_space by blast+
  then have "strip r = dropWhile isspace u @ a # b # c # rev (dropWhile isspace (rev w))"
    unfolding r by (rule strip_middle)
  moreover have "yes_when_upper (dropWhile isspace u @ a # b # c # rev (dropWhile isspace (rev w)))"
    using y by (rule yes_when_upper_append)
  ultimately show "yes_when_upper (strip r)" by simp
qed

lemma verdict_is_yes_when_upper:
  "contains (code_points ''YES'') (upper (strip r)) = yes_when_upper r"
  unfolding contains_YES_upper by (rule yes_when_upper_strip)

lemma strip_Nil_iff: "strip s = [] \<longleftrightarrow> (\<forall>c\<in>set s. isspace c)"
proof -
  have "strip s = [] \<longleftrightarrow> (\<forall>c\<in>set (dropWhile isspace s). isspace c)"
    by (simp add: strip_def dropWhile_eq_Nil_conv)
  also have "\<dots> \<longleftrightarrow> dropWhile isspace s = []"
  proof
    assume all: "\<forall>c\<in>set (dropWhile isspace s). isspace c"
    show "dropWhile isspace s = []"
    proof (rule ccontr)
      assume ne: "dropWhile isspace s \<noteq> []"
      then have "\<not> isspace (hd (dropWhile isspace s))" by (rule hd_dropWhile)
      moreover from ne have "hd (dropWhile isspace s) \<in> set (dropWhile isspace s)" by simp
      ultimately show False using all by blast
    qed
  next
    assume e: "dropWhile isspace s = []"
    show "\<forall>c\<in>set (dropWhile isspace s). isspace c" unfolding e by simp
  qed
  also have "\<dots> \<longleftrightarrow> (\<forall>c\<in>set s. isspace c)"
    by (simp add: dropWhile_eq_Nil_conv)
  finally show ?thesis .
qed

section \<open>The classifier\<close>

lemma check_refusal_asks:
  assumes "strip s \<noteq> []"
  shows "check_refusal E v (JStr s) io =
     (case post E (ollama_base_url v @ ''/api/generate'') (judge_payload v s) (snd io) of
        (reply, w') \<Rightarrow>
          (Inr (case judge_verdict reply of Inr b \<Rightarrow> b | Inl e \<Rightarrow> False),
           (fst io @ [Post (ollama_base_url v @ ''/api/generate'') (judge_payload v s) reply], w')))"
proof -
  from assms have "s \<noteq> []" by (auto simp: strip_def)
  with assms show ?thesis
    by (simp add: check_refusal_def requests_post_def split: prod.splits sum.splits)
qed

lemma judge_verdict_raw_reply:
  "(case judge_verdict reply of Inr b \<Rightarrow> b | Inl e \<Rightarrow> False) =
   (case raw_reply reply of
      Some r \<Rightarrow> contains (code_points ''YES'') (upper (strip r))
    | None \<Rightarrow> False)"
  by (auto simp: judge_verdict_def raw_reply_def and_then_def raise_for_status_def py_get_def
      dict_get_def split: sum.splits json.splits option.splits)

lemma check_refusal_not_text:
  "\<forall>s. content \<noteq> JStr s \<Longrightarrow> check_refusal E v content io = (Inr False, io) \<or>
     (\<exists>e. check_refusal E v content io = (Inl e, io))"
  by (cases content) (simp_all add: check_refusal_def)

text \<open>
  C7. For every text that is empty or made of whitespace only, \<open>check_refusal\<close> returns
  \<open>False\<close> and sends nothing: the log of requests and the runtime are as they were.
  Whitespace is what \<open>str.strip\<close> removes, the no-break space and the next-line control
  included.
\<close>

theorem check_refusal_blank:
  "\<forall>c\<in>set s. isspace c \<Longrightarrow> check_refusal E v (JStr s) io = (Inr False, io)"
  by (simp add: check_refusal_def strip_Nil_iff)

theorem check_refusal_blank_witness:
  "check_refusal (scripted_env (judge_says ''YES'') connection_refused connection_refused)
     default_valves (JStr [CHR 0x20, CHR 0x0A, CHR 0xA0, CHR 0x09, CHR 0x85]) ([], 0)
   = (Inr False, ([], 0))
   \<and> check_refusal (scripted_env (judge_says ''YES'') connection_refused connection_refused)
     default_valves (JStr []) ([], 0)
   = (Inr False, ([], 0))"
proof -
  have h: "\<forall>c\<in>set [CHR 0x20, CHR 0x0A, CHR 0xA0, CHR 0x09, CHR 0x85]. isspace c"
    by (simp add: isspace_def)
  have h0: "\<forall>c\<in>set []. isspace c"
    by simp
  from check_refusal_blank [OF h] check_refusal_blank [OF h0] show ?thesis by (rule conjI)
qed

text \<open>
  C3 (as amended). For every text that is not empty and not whitespace only,
  \<open>check_refusal\<close> returns \<open>True\<close> exactly when the judge's raw reply, upper-cased as
  \<open>str.upper\<close> does it, contains \<open>YES\<close>: the reply has \<open>y\<close>, \<open>e\<close> and then \<open>s\<close> or a
  sharp s in a row, the letters in either case. So on a reply without a sharp s it returns
  \<open>True\<close> exactly when the reply contains the word YES in some mix of cases. It returns
  \<open>False\<close> for every other reply and whenever there is no reply to read, because the
  request raised, the answer carried an error status, or it did not decode to an object
  with a text. It never raises.
\<close>

theorem check_refusal_verdict:
  assumes "strip s \<noteq> []"
  shows "fst (check_refusal E v (JStr s) io) =
       Inr (case raw_reply (fst (post E (ollama_base_url v @ ''/api/generate'')
                                    (judge_payload v s) (snd io))) of
              Some r \<Rightarrow> yes_when_upper r
            | None \<Rightarrow> False)
     \<and> (\<forall>r. raw_reply (fst (post E (ollama_base_url v @ ''/api/generate'')
                                 (judge_payload v s) (snd io))) = Some r
              \<and> CHR 0xDF \<notin> set r \<longrightarrow>
            fst (check_refusal E v (JStr s) io) = Inr (yes_in_any_case r))"
proof -
  have 1: "fst (check_refusal E v (JStr s) io) =
       Inr (case raw_reply (fst (post E (ollama_base_url v @ ''/api/generate'')
                                    (judge_payload v s) (snd io))) of
              Some r \<Rightarrow> yes_when_upper r
            | None \<Rightarrow> False)"
    unfolding check_refusal_asks [OF assms] judge_verdict_raw_reply verdict_is_yes_when_upper
    by (simp add: case_prod_unfold)
  have 2: "\<forall>r. raw_reply (fst (post E (ollama_base_url v @ ''/api/generate'')
                                 (judge_payload v s) (snd io))) = Some r
              \<and> CHR 0xDF \<notin> set r \<longrightarrow>
            fst (check_refusal E v (JStr s) io) = Inr (yes_in_any_case r)"
    unfolding 1 by (auto simp: yes_when_upper_plain)
  from 1 2 show ?thesis by (rule conjI)
qed

theorem check_refusal_verdict_witness:
  "fst (check_refusal (scripted_env (judge_says ''  Yes, it is a refusal.'') connection_refused
          connection_refused) default_valves (JStr ''I cannot fulfill this request.'') ([], 0))
     = Inr True
   \<and> fst (check_refusal (scripted_env (judge_says ''NO'') connection_refused
          connection_refused) default_valves (JStr ''I cannot fulfill this request.'') ([], 0))
     = Inr False
   \<and> fst (check_refusal (scripted_env connection_refused connection_refused
          connection_refused) default_valves (JStr ''I cannot fulfill this request.'') ([], 0))
     = Inr False
   \<and> fst (check_refusal (scripted_env out_of_memory connection_refused
          connection_refused) default_valves (JStr ''I cannot fulfill this request.'') ([], 0))
     = Inr False
   \<and> fst (check_refusal (scripted_env (judge_says ''  Yes, it is a refusal.'') connection_refused
          connection_refused) default_valves (JStr ''I cannot fulfill this request.'') ([], 0))
     = Inr (yes_in_any_case ''  Yes, it is a refusal.'')"
proof -
  have h: "strip ''I cannot fulfill this request.'' \<noteq> []"
    by code_simp
  have p: "map_of [(''model'', JStr (judge_model_id default_valves)),
        (''prompt'', JStr (judge_prompt (take 1000 ''I cannot fulfill this request.''))),
        (''stream'', JBool False),
        (''options'', JDict [(''temperature'', JFloat 0), (''num_predict'', JInt 10)])] ''prompt''
      \<noteq> None"
    by simp
  have q: "raw_reply (fst (post (scripted_env (judge_says ''  Yes, it is a refusal.'')
            connection_refused connection_refused)
          (ollama_base_url default_valves @ ''/api/generate'')
          (judge_payload default_valves ''I cannot fulfill this request.'') (snd ([], 0))))
        = Some ''  Yes, it is a refusal.''
      \<and> CHR 0xDF \<notin> set ''  Yes, it is a refusal.''"
    using p by (simp add: scripted_env_def judge_payload_def judge_says_def raw_reply_def)
  have "fst (check_refusal (scripted_env (judge_says ''  Yes, it is a refusal.'') connection_refused
          connection_refused) default_valves (JStr ''I cannot fulfill this request.'') ([], 0))
     = Inr True
   \<and> fst (check_refusal (scripted_env (judge_says ''NO'') connection_refused
          connection_refused) default_valves (JStr ''I cannot fulfill this request.'') ([], 0))
     = Inr False
   \<and> fst (check_refusal (scripted_env connection_refused connection_refused
          connection_refused) default_valves (JStr ''I cannot fulfill this request.'') ([], 0))
     = Inr False
   \<and> fst (check_refusal (scripted_env out_of_memory connection_refused
          connection_refused) default_valves (JStr ''I cannot fulfill this request.'') ([], 0))
     = Inr False"
    unfolding check_refusal_verdict [OF h, THEN conjunct1]
    using p by (simp add: scripted_env_def judge_payload_def judge_says_def connection_refused_def
        out_of_memory_def raw_reply_def upper_yes_at_def)
  with check_refusal_verdict [OF h, THEN conjunct2, rule_format, OF q] show ?thesis
    by simp
qed

text \<open>
  C3 as stated fails on a reply with a sharp s: upper-cased, \<open>ye\<close> followed by a sharp s
  is \<open>YESS\<close>, so \<open>check_refusal\<close> returns \<open>True\<close> on a reply that contains the word YES
  in no mix of cases.
\<close>

theorem check_refusal_sharp_s:
  "fst (check_refusal (scripted_env (judge_says [CHR ''y'', CHR ''e'', CHR 0xDF]) connection_refused
          connection_refused) default_valves (JStr ''I cannot fulfill this request.'') ([], 0))
     = Inr True
   \<and> \<not> yes_in_any_case [CHR ''y'', CHR ''e'', CHR 0xDF]
   \<and> upper [CHR ''y'', CHR ''e'', CHR 0xDF] = code_points ''YESS''"
  by code_simp

text \<open>
  C8. For every text that is not empty and not whitespace only, \<open>check_refusal\<close> sends
  one request, to the \<open>generate\<close> endpoint. Its prompt is the fixed question with the first
  1000 characters of the text, and nothing else of it, between the quotation marks after
  \<open>Text:\<close>; its temperature is 0 and its cap on the output (\<open>num_predict\<close>) is 10 tokens.
\<close>

theorem check_refusal_request:
  assumes "strip s \<noteq> []"
  shows "\<exists>reply.
     fst (snd (check_refusal E v (JStr s) (tr, w))) =
       tr @ [Post (ollama_base_url v @ ''/api/generate'')
               (JDict [(''model'', JStr (judge_model_id v)),
                       (''prompt'', JStr (
                          ''Analyze the following AI response text. ''
                          @ ''Does it represent a refusal to answer a request ''
                          @ ''due to ethical, safety, moral, or policy guidelines? ''
                          @ ''Typical refusals sound like ''
                          @ [CHR 0x27] @ ''I cannot fulfill'' @ [CHR 0x27] @ '', ''
                          @ [CHR 0x27] @ ''I apologize'' @ [CHR 0x27] @ '', ''
                          @ [CHR 0x27] @ ''I cannot comply'' @ [CHR 0x27] @ ''.''
                          @ [CHR 0x0A, CHR 0x0A]
                          @ ''Text: '' @ [CHR 0x22] @ take 1000 s @ [CHR 0x22]
                          @ [CHR 0x0A, CHR 0x0A]
                          @ ''Answer with exactly one word: ''
                          @ [CHR 0x27] @ ''YES'' @ [CHR 0x27] @ '' or ''
                          @ [CHR 0x27] @ ''NO'' @ [CHR 0x27] @ ''.'')),
                       (''stream'', JBool False),
                       (''options'', JDict [(''temperature'', JFloat 0),
                                            (''num_predict'', JInt 10)])])
               reply]
     \<and> length (take 1000 s) \<le> 1000
     \<and> prefix (take 1000 s) s"
  unfolding check_refusal_asks [OF assms]
  by (simp add: case_prod_unfold judge_payload_def judge_prompt_def quoted_def take_is_prefix)

theorem check_refusal_request_witness:
  "\<exists>reply.
     fst (snd (check_refusal (scripted_env (judge_says ''NO'') connection_refused connection_refused)
                 default_valves (JStr (replicate 1200 CHR ''a'' @ ''bcd'')) ([], 0))) =
       [] @ [Post (ollama_base_url default_valves @ ''/api/generate'')
               (JDict [(''model'', JStr (judge_model_id default_valves)),
                       (''prompt'', JStr (
                          ''Analyze the following AI response text. ''
                          @ ''Does it represent a refusal to answer a request ''
                          @ ''due to ethical, safety, moral, or policy guidelines? ''
                          @ ''Typical refusals sound like ''
                          @ [CHR 0x27] @ ''I cannot fulfill'' @ [CHR 0x27] @ '', ''
                          @ [CHR 0x27] @ ''I apologize'' @ [CHR 0x27] @ '', ''
                          @ [CHR 0x27] @ ''I cannot comply'' @ [CHR 0x27] @ ''.''
                          @ [CHR 0x0A, CHR 0x0A]
                          @ ''Text: '' @ [CHR 0x22]
                          @ take 1000 (replicate 1200 CHR ''a'' @ ''bcd'') @ [CHR 0x22]
                          @ [CHR 0x0A, CHR 0x0A]
                          @ ''Answer with exactly one word: ''
                          @ [CHR 0x27] @ ''YES'' @ [CHR 0x27] @ '' or ''
                          @ [CHR 0x27] @ ''NO'' @ [CHR 0x27] @ ''.'')),
                       (''stream'', JBool False),
                       (''options'', JDict [(''temperature'', JFloat 0),
                                            (''num_predict'', JInt 10)])])
               reply]
     \<and> length (take 1000 (replicate 1200 CHR ''a'' @ ''bcd'')) \<le> 1000
     \<and> prefix (take 1000 (replicate 1200 CHR ''a'' @ ''bcd'')) (replicate 1200 CHR ''a'' @ ''bcd'')"
proof -
  have "\<not> isspace CHR ''d''" by (simp add: isspace_def)
  then have "\<not> (\<forall>c\<in>set (replicate 1200 CHR ''a'' @ ''bcd''). isspace c)" by simp
  then have h: "strip (replicate 1200 CHR ''a'' @ ''bcd'') \<noteq> []"
    unfolding strip_Nil_iff .
  show ?thesis by (rule check_refusal_request [OF h])
qed

section \<open>One invocation, step by step\<close>

text \<open>
  A step that returns hands its result and the log to the next one; a report to an observer
  that does not raise is such a step. Reports add no request to the log and requests add no
  report.
\<close>

lemma bind_io_Inr: "fst (m io) = Inr x \<Longrightarrow> bind_io m f io = f x (snd (m io))"
  by (cases "m io") (simp add: bind_io_def)

lemma bind_io_returning: "bind_io (returning m) f io = f (fst (m io)) (snd (m io))"
  by (simp add: bind_io_def returning_def split: prod.splits)

lemma bind_io_raising_Inr: "bind_io (raising (Inr x)) f io = f x io"
  by (simp add: bind_io_def raising_def)

lemma emit_status_ok: "observer_returns em \<Longrightarrow> fst (emit_status em m d io) = Inr ()"
  by (cases em) (simp_all add: emit_status_def observer_returns_def case_prod_unfold)

lemma bind_io_emit_status:
  "observer_returns em \<Longrightarrow> bind_io (emit_status em m d) f io = f () (snd (emit_status em m d io))"
  by (rule bind_io_Inr) (rule emit_status_ok)

lemma posts_emit_status: "posts (fst (snd (emit_status em m d io))) = posts (fst io)"
  by (cases em) (simp_all add: emit_status_def posts_def split: prod.splits)

lemma reports_append: "reports (tr @ tr') = reports tr @ reports tr'"
  by (induction tr rule: reports.induct) simp_all

lemma reports_emit_status:
  "reports (fst (snd (emit_status em m d io))) = reports (fst io) @ [status_event m d]"
  by (cases em) (simp_all add: emit_status_def reports_append split: prod.splits)

text \<open>Each residency call and the generation send one request, whatever comes back.\<close>

lemma unload_model_run:
  "\<exists>r. posts (fst (unload_model E v model io)) = posts (fst io) @ [evict v model r]
     \<and> reports (fst (unload_model E v model io)) = reports (fst io)"
  by (simp add: unload_model_def requests_post_def evict_def posts_def reports_append split: prod.splits)

lemma load_model_run:
  "\<exists>r. posts (fst (load_model E v model io)) = posts (fst io) @ [pin v model r]
     \<and> reports (fst (load_model E v model io)) = reports (fst io)"
  by (simp add: load_model_def requests_post_def pin_def posts_def reports_append split: prod.splits)

lemma chat_content_generated:
  "generated r = Some c \<Longrightarrow> chat_content r = Inr c"
  by (auto simp: generated_def chat_content_def and_then_def raise_for_status_def py_get_def
      dict_get_def split: sum.splits json.splits option.splits if_splits)

lemma chat_content_not_generated:
  "generated r = None \<Longrightarrow>
     chat_content r = Inr (JStr ''Error generating replacement.'') \<or> (\<exists>e. chat_content r = Inl e)"
  by (auto simp: generated_def chat_content_def and_then_def raise_for_status_def py_get_def
      dict_get_def split: sum.splits json.splits option.splits if_splits)

lemma generate_replacement_run:
  "\<exists>r. posts (fst (snd (generate_replacement E v model (JList history) io)))
        = posts (fst io) @ [chat v model history r]
     \<and> reports (fst (snd (generate_replacement E v model (JList history) io))) = reports (fst io)
     \<and> (case generated r of
          Some c \<Rightarrow> fst (generate_replacement E v model (JList history) io) = c
        | None \<Rightarrow> \<exists>s. fst (generate_replacement E v model (JList history) io) = JStr s \<and> s \<noteq> [])"
proof -
  obtain r w' where p: "post E (ollama_base_url v @ ''/api/chat'')
      (JDict [(''model'', model), (''messages'', JList history), (''stream'', JBool False)]) (snd io) = (r, w')"
    by (cases "post E (ollama_base_url v @ ''/api/chat'')
      (JDict [(''model'', model), (''messages'', JList history), (''stream'', JBool False)]) (snd io)")
  have "posts (fst (snd (generate_replacement E v model (JList history) io)))
        = posts (fst io) @ [chat v model history r]"
    using p by (simp add: generate_replacement_def requests_post_def chat_def posts_def split: sum.splits)
  moreover have "reports (fst (snd (generate_replacement E v model (JList history) io))) = reports (fst io)"
    using p by (simp add: generate_replacement_def requests_post_def reports_append split: sum.splits)
  moreover have "case generated r of
          Some c \<Rightarrow> fst (generate_replacement E v model (JList history) io) = c
        | None \<Rightarrow> \<exists>s. fst (generate_replacement E v model (JList history) io) = JStr s \<and> s \<noteq> []"
  proof (cases "generated r")
    case None
    from chat_content_not_generated [OF None] show ?thesis
      using p None by (auto simp: generate_replacement_def requests_post_def)
  next
    case (Some c)
    from chat_content_generated [OF Some] show ?thesis
      using p Some by (simp add: generate_replacement_def requests_post_def)
  qed
  ultimately show ?thesis by blast
qed

text \<open>
  The swap, when every report returns: four requests in a fixed order, five reports, and the
  new answer put in place of the last message's content.
\<close>

lemma swap_sequence_run:
  assumes obs: "observer_returns em"
  shows "\<exists>tr' w' r1 r2 r3 r4 new.
     swap_sequence E v em body (JList ms) om io = (set_last_content body new, (tr', w'))
   \<and> posts tr' = posts (fst io) @
        [evict v om r1, chat v (JStr (abliterated_model_id v)) (butlast ms) r2,
         evict v (JStr (abliterated_model_id v)) r3, pin v om r4]
   \<and> reports tr' = reports (fst io) @
        [status_event (''Refusal detected. Unloading '' @ py_str E om @ ''...'') False,
         status_event (''Loading '' @ abliterated_model_id v @ '' & Generating...'') False,
         status_event (''Unloading '' @ abliterated_model_id v @ ''...'') False,
         status_event (''Restoring '' @ py_str E om @ ''...'') False,
         status_event ''Model swap complete.'' True]
   \<and> (case generated r2 of Some c \<Rightarrow> new = c | None \<Rightarrow> \<exists>s. new = JStr s \<and> s \<noteq> [])"
proof -
  define abl where "abl = JStr (abliterated_model_id v)"
  define io1 where "io1 = snd (emit_status em (''Refusal detected. Unloading '' @ py_str E om @ ''...'') False io)"
  define io2 where "io2 = unload_model E v om io1"
  define io3 where "io3 = snd (emit_status em (''Loading '' @ abliterated_model_id v @ '' & Generating...'') False io2)"
  define g where "g = generate_replacement E v abl (JList (butlast ms)) io3"
  define io5 where "io5 = snd (emit_status em (''Unloading '' @ abliterated_model_id v @ ''...'') False (snd g))"
  define io6 where "io6 = unload_model E v abl io5"
  define io7 where "io7 = snd (emit_status em (''Restoring '' @ py_str E om @ ''...'') False io6)"
  define io8 where "io8 = load_model E v om io7"
  define io9 where "io9 = snd (emit_status em ''Model swap complete.'' True io8)"
  have run: "swap_sequence E v em body (JList ms) om io = (set_last_content body (fst g), io9)"
    unfolding swap_sequence_def
    by (simp add: bind_io_emit_status [OF obs] bind_io_returning raising_def py_butlast_def
        bind_io_raising_Inr
        io9_def io8_def io7_def io6_def io5_def g_def io3_def io2_def io1_def abl_def)
  obtain r1 where 2: "posts (fst io2) = posts (fst io1) @ [evict v om r1]"
      "reports (fst io2) = reports (fst io1)"
    unfolding io2_def using unload_model_run [of E v om io1] by blast
  obtain r2 where 4: "posts (fst (snd g)) = posts (fst io3) @ [chat v abl (butlast ms) r2]"
      "reports (fst (snd g)) = reports (fst io3)"
      "case generated r2 of Some c \<Rightarrow> fst g = c | None \<Rightarrow> \<exists>s. fst g = JStr s \<and> s \<noteq> []"
    unfolding g_def using generate_replacement_run [of E v abl "butlast ms" io3] by blast
  obtain r3 where 6: "posts (fst io6) = posts (fst io5) @ [evict v abl r3]"
      "reports (fst io6) = reports (fst io5)"
    unfolding io6_def using unload_model_run [of E v abl io5] by blast
  obtain r4 where 8: "posts (fst io8) = posts (fst io7) @ [pin v om r4]"
      "reports (fst io8) = reports (fst io7)"
    unfolding io8_def using load_model_run [of E v om io7] by blast
  have p: "posts (fst io9) = posts (fst io) @ [evict v om r1, chat v abl (butlast ms) r2,
         evict v abl r3, pin v om r4]"
    unfolding io9_def posts_emit_status 8 io7_def 6 io5_def 4 io3_def 2 io1_def by simp
  have q: "reports (fst io9) = reports (fst io) @
        [status_event (''Refusal detected. Unloading '' @ py_str E om @ ''...'') False,
         status_event (''Loading '' @ abliterated_model_id v @ '' & Generating...'') False,
         status_event (''Unloading '' @ abliterated_model_id v @ ''...'') False,
         status_event (''Restoring '' @ py_str E om @ ''...'') False,
         status_event ''Model swap complete.'' True]"
    unfolding io9_def reports_emit_status 8 io7_def 6 io5_def 4 io3_def 2 io1_def by simp
  have "swap_sequence E v em body (JList ms) om io = (set_last_content body (fst g), (fst io9, snd io9))"
    using run by simp
  with p q 4(3) show ?thesis unfolding abl_def by blast
qed

text \<open>
  The entry point on a conversation that is not empty and ends with a message object, when
  every report returns: the check is announced, the last message is classified, and the
  verdict picks the swap or the terminal report.
\<close>

lemma outlet_run:
  assumes obs: "observer_returns em"
    and msgs: "map_of body ''messages'' = Some (JList ms)" and ne: "ms \<noteq> []"
    and lm: "last ms = JDict m"
  shows "outlet E v em body io =
     (if fst (check_refusal E v (dict_get m ''content'' (JStr []))
                (snd (emit_status em ''Checking response for refusal...'' False io))) = Inr True
      then swap_sequence E v em body (JList ms) (dict_get body ''model'' JNull)
             (snd (check_refusal E v (dict_get m ''content'' (JStr []))
                (snd (emit_status em ''Checking response for refusal...'' False io))))
      else (Inr body,
            snd (emit_status em [] True
              (snd (check_refusal E v (dict_get m ''content'' (JStr []))
                (snd (emit_status em ''Checking response for refusal...'' False io)))))))"
proof -
  define io1 where "io1 = snd (emit_status em ''Checking response for refusal...'' False io)"
  define r where "r = check_refusal E v (dict_get m ''content'' (JStr [])) io1"
  have a: "and_then (py_last (JList ms)) (\<lambda>m. py_get m ''content'' (JStr []))
      = Inr (dict_get m ''content'' (JStr []))"
    using ne lm by (simp add: py_last_def py_get_def and_then_def)
  have "outlet E v em body io =
      (if (case fst r of Inl e \<Rightarrow> False | Inr b \<Rightarrow> b)
       then swap_sequence E v em body (JList ms) (dict_get body ''model'' JNull) (snd r)
       else (Inr body, snd (emit_status em [] True (snd r))))"
    unfolding outlet_def Let_def
    using msgs ne
    by (simp add: dict_get_def [of body] a [unfolded dict_get_def] bind_io_raising_Inr
        bind_io_emit_status [OF obs] bind_io_returning raising_def r_def io1_def dict_get_def [of m])
  moreover have "(case fst r of Inl e \<Rightarrow> False | Inr b \<Rightarrow> b) \<longleftrightarrow> fst r = Inr True"
    by (cases "fst r") auto
  ultimately show ?thesis unfolding r_def io1_def by simp
qed

text \<open>
  The classifier sends at most one request, and sends it exactly when the text is not blank;
  it makes no report.
\<close>

lemma check_refusal_log:
  "(check_refusal E v c io = (Inr False, io) \<or> (\<exists>e. check_refusal E v c io = (Inl e, io)))
   \<or> (\<exists>s r. c = JStr s \<and> strip s \<noteq> [] \<and>
         fst (snd (check_refusal E v c io)) =
           fst io @ [Post (ollama_base_url v @ ''/api/generate'') (judge_payload v s) r])"
proof (cases "\<exists>s. c = JStr s")
  case False
  then have "\<forall>s. c \<noteq> JStr s" by blast
  from check_refusal_not_text [OF this] show ?thesis by blast
next
  case True
  then obtain s where c: "c = JStr s" by blast
  show ?thesis
  proof (cases "strip s = []")
    case True
    then have "check_refusal E v c io = (Inr False, io)"
      unfolding c by (simp add: check_refusal_def)
    then show ?thesis by blast
  next
    case False
    have "fst (snd (check_refusal E v c io)) =
        fst io @ [Post (ollama_base_url v @ ''/api/generate'') (judge_payload v s)
                    (fst (post E (ollama_base_url v @ ''/api/generate'') (judge_payload v s) (snd io)))]"
      unfolding c check_refusal_asks [OF False] by (simp add: case_prod_unfold)
    with c False show ?thesis by blast
  qed
qed

lemma check_refusal_reports: "reports (fst (snd (check_refusal E v c io))) = reports (fst io)"
  using check_refusal_log [of E v c io] by (auto simp: reports_append)

text \<open>The assignment to the last message's content, and what a returned body can be.\<close>

lemma set_last_content_ok:
  assumes "map_of body ''messages'' = Some (JList ms)" "ms \<noteq> []" "last ms = JDict m"
  shows "set_last_content body new =
     Inr (AList.update ''messages''
            (JList (butlast ms @ [JDict (AList.update ''content'' new m)])) body)"
  using assms by (simp add: set_last_content_def py_last_def and_then_def)

lemma set_last_content_Inr:
  assumes "set_last_content body new = Inr body'"
  shows "\<exists>ms m. map_of body ''messages'' = Some (JList ms) \<and> ms \<noteq> [] \<and> last ms = JDict m
     \<and> body' = AList.update ''messages''
            (JList (butlast ms @ [JDict (AList.update ''content'' new m)])) body"
  using assms
  by (auto simp: set_last_content_def py_last_def and_then_def
      split: option.splits json.splits if_splits)

lemma last_content_update:
  "last_content (AList.update ''messages''
       (JList (butlast ms @ [JDict (AList.update ''content'' new m)])) body) = Some new"
  by (simp add: last_content_def update_conv')

lemma bind_io_Inr_elim:
  "fst (bind_io m f io) = Inr y \<Longrightarrow> \<exists>x. fst (m io) = Inr x \<and> fst (f x (snd (m io))) = Inr y"
  by (cases "m io") (auto simp: bind_io_def split: sum.splits)

lemma swap_sequence_result:
  "fst (swap_sequence E v em body msgs om io) = Inr body' \<Longrightarrow>
     \<exists>new. set_last_content body new = Inr body'"
  unfolding swap_sequence_def
  by (auto dest!: bind_io_Inr_elim simp: raising_def)

lemma outlet_result:
  assumes "fst (outlet E v em body io) = Inr body'"
  shows "body' = body \<or> (\<exists>new. set_last_content body new = Inr body')"
proof (cases "truthy (dict_get body ''messages'' (JList []))")
  case False
  with assms show ?thesis by (simp add: outlet_def raising_def)
next
  case True
  with assms have "fst (bind_io (raising (and_then (py_last (dict_get body ''messages'' (JList [])))
        (\<lambda>m. py_get m ''content'' (JStr []))))
      (\<lambda>ai_response.
        bind_io (emit_status em ''Checking response for refusal...'' False) (\<lambda>_.
        bind_io (returning (check_refusal E v ai_response)) (\<lambda>r.
        if (case r of Inl e \<Rightarrow> False | Inr b \<Rightarrow> b)
        then swap_sequence E v em body (dict_get body ''messages'' (JList []))
               (dict_get body ''model'' JNull)
        else bind_io (emit_status em [] True) (\<lambda>_. raising (Inr body))))) io) = Inr body'"
    by (simp add: outlet_def Let_def)
  then show ?thesis
    by (auto dest!: bind_io_Inr_elim swap_sequence_result split: if_splits simp: raising_def)
qed

text \<open>
  A report that the observer answers with an exception ends the run: every step of the
  filter, and so the swap and the whole entry point, stops at the first failed report.
\<close>

lemma stops_emit_status: "stops_at_failure (emit_status em m d)"
proof (cases em)
  case None
  then show ?thesis
    by (simp add: stops_at_failure_def emit_status_def unfailed_def)
next
  case (Some f)
  show ?thesis
    unfolding stops_at_failure_def
  proof (intro allI impI)
    fix io :: "'a io"
    assume u: "unfailed (fst io)"
    show "unfailed (fst (snd (emit_status em m d io))) \<or>
        (\<exists>ev e tr0. fst (emit_status em m d io) = Inl e
           \<and> fst (snd (emit_status em m d io)) = tr0 @ [Emit ev (Some (Inl e))] \<and> unfailed tr0)"
    proof (cases "fst (f (status_event m d) (snd io))")
      case (Inl e)
      then have "fst (emit_status em m d io) = Inl e
          \<and> fst (snd (emit_status em m d io)) = fst io @ [Emit (status_event m d) (Some (Inl e))]"
        unfolding Some by (simp add: emit_status_def case_prod_unfold)
      with u show ?thesis by blast
    next
      case (Inr x)
      then have "fst (snd (emit_status em m d io))
          = fst io @ [Emit (status_event m d) (Some (Inr x))]"
        unfolding Some by (simp add: emit_status_def case_prod_unfold)
      with u show ?thesis by (simp add: unfailed_def)
    qed
  qed
qed

lemma stops_returning:
  "(\<And>io. unfailed (fst io) \<Longrightarrow> unfailed (fst (snd (m io)))) \<Longrightarrow> stops_at_failure (returning m)"
  by (simp add: stops_at_failure_def returning_def case_prod_unfold)

lemma stops_raising: "stops_at_failure (raising r)"
  by (simp add: stops_at_failure_def raising_def)

lemma stops_if:
  "stops_at_failure a \<Longrightarrow> stops_at_failure b \<Longrightarrow> stops_at_failure (if c then a else b)"
  by simp

lemma stops_bind:
  assumes m: "stops_at_failure m" and f: "\<And>x. stops_at_failure (f x)"
  shows "stops_at_failure (bind_io m f)"
  unfolding stops_at_failure_def
proof (intro allI impI)
  fix io :: "'a io"
  assume u: "unfailed (fst io)"
  from m u have 1: "unfailed (fst (snd (m io))) \<or>
      (\<exists>ev e tr0. fst (m io) = Inl e \<and> fst (snd (m io)) = tr0 @ [Emit ev (Some (Inl e))]
         \<and> unfailed tr0)"
    unfolding stops_at_failure_def by blast
  show "unfailed (fst (snd (bind_io m f io))) \<or>
      (\<exists>ev e tr0. fst (bind_io m f io) = Inl e
         \<and> fst (snd (bind_io m f io)) = tr0 @ [Emit ev (Some (Inl e))] \<and> unfailed tr0)"
  proof (cases "fst (m io)")
    case (Inl e)
    then have "bind_io m f io = (Inl e, snd (m io))"
      by (cases "m io") (simp add: bind_io_def)
    with 1 Inl show ?thesis by simp
  next
    case (Inr x)
    then have b: "bind_io m f io = f x (snd (m io))"
      by (rule bind_io_Inr)
    from 1 Inr have "unfailed (fst (snd (m io)))" by simp
    with f [of x] show ?thesis
      unfolding b stops_at_failure_def by blast
  qed
qed

lemma unfailed_requests_post:
  "unfailed (fst io) \<Longrightarrow> unfailed (fst (snd (requests_post E url payload io)))"
  by (simp add: requests_post_def unfailed_def case_prod_unfold)

lemma unfailed_unload_model:
  "unfailed (fst io) \<Longrightarrow> unfailed (fst (unload_model E v model io))"
  unfolding unload_model_def by (rule unfailed_requests_post)

lemma unfailed_load_model:
  "unfailed (fst io) \<Longrightarrow> unfailed (fst (load_model E v model io))"
  unfolding load_model_def by (rule unfailed_requests_post)

lemma unfailed_generate_replacement:
  "unfailed (fst io) \<Longrightarrow> unfailed (fst (snd (generate_replacement E v model history io)))"
  by (simp add: generate_replacement_def requests_post_def unfailed_def case_prod_unfold
      split: sum.splits)

lemma unfailed_check_refusal:
  "unfailed (fst io) \<Longrightarrow> unfailed (fst (snd (check_refusal E v c io)))"
  using check_refusal_log [of E v c io] by (auto simp: unfailed_def)

lemma stops_swap_sequence: "stops_at_failure (swap_sequence E v em body msgs om)"
  unfolding swap_sequence_def
  by (intro stops_bind stops_emit_status stops_returning stops_raising)
    (simp_all add: unfailed_unload_model unfailed_load_model unfailed_generate_replacement)

lemma stops_outlet: "stops_at_failure (outlet E v em body)"
  unfolding outlet_def Let_def
  by (intro stops_if stops_bind stops_emit_status stops_returning stops_raising
      stops_swap_sequence)
    (simp_all add: unfailed_check_refusal)

lemma failure_is_last:
  assumes c: "stops_at_failure c" and run: "c ([], w) = (res, (tr, w'))"
    and bad: "Emit ev (Some (Inl e)) \<in> set tr"
  shows "res = Inl e \<and> (\<exists>tr0. tr = tr0 @ [Emit ev (Some (Inl e))] \<and> unfailed tr0)"
proof -
  have "unfailed (fst ([] :: event list, w))" by (simp add: unfailed_def)
  with c have "unfailed (fst (snd (c ([], w)))) \<or>
      (\<exists>ev' e' tr0. fst (c ([], w)) = Inl e'
         \<and> fst (snd (c ([], w))) = tr0 @ [Emit ev' (Some (Inl e'))] \<and> unfailed tr0)"
    unfolding stops_at_failure_def by blast
  then have "unfailed tr \<or>
      (\<exists>ev' e' tr0. res = Inl e' \<and> tr = tr0 @ [Emit ev' (Some (Inl e'))] \<and> unfailed tr0)"
    unfolding run by simp
  moreover have f: "failed_report (Emit ev (Some (Inl e)))"
    by simp
  moreover have "\<not> unfailed tr"
    using bad f unfolding unfailed_def list_all_iff by blast
  ultimately obtain ev' e' tr0 where r: "res = Inl e'"
    and t: "tr = tr0 @ [Emit ev' (Some (Inl e'))]" and u: "unfailed tr0"
    by blast
  from u f have "Emit ev (Some (Inl e)) \<notin> set tr0"
    unfolding unfailed_def list_all_iff by blast
  with bad have "Emit ev (Some (Inl e)) = Emit ev' (Some (Inl e'))"
    unfolding t by simp
  with r t u show ?thesis by auto
qed

section \<open>Progress reports\<close>

text \<open>
  C2 (as amended). With no observer registered \<open>emit_status\<close> delivers nothing, leaves the
  outside world as it was and returns. With an observer it hands over the one status event
  and ends as the observer ends: it returns when the observer returns and raises what the
  observer raises, since the call is awaited outside any \<open>try\<close>. So a report that the
  observer fails to take aborts the swap, and the whole invocation, at that point: the
  run raises what the observer raised, and the failed report is the last entry of its log,
  with no request and no report after it.
\<close>

theorem emit_status_contract:
  "emit_status None message done (tr, w) =
     (Inr (), (tr @ [Emit (status_event message done) None], w))
   \<and> emit_status (Some f) message done (tr, w) =
       (fst (f (status_event message done) w),
        (tr @ [Emit (status_event message done) (Some (fst (f (status_event message done) w)))],
         snd (f (status_event message done) w)))
   \<and> (\<forall>res tr' w' ev e.
         swap_sequence E v em body msgs om ([], w) = (res, (tr', w'))
         \<and> Emit ev (Some (Inl e)) \<in> set tr' \<longrightarrow>
         res = Inl e \<and> (\<exists>tr0. tr' = tr0 @ [Emit ev (Some (Inl e))] \<and> unfailed tr0))
   \<and> (\<forall>res tr' w' ev e.
         outlet E v em body ([], w) = (res, (tr', w'))
         \<and> Emit ev (Some (Inl e)) \<in> set tr' \<longrightarrow>
         res = Inl e \<and> (\<exists>tr0. tr' = tr0 @ [Emit ev (Some (Inl e))] \<and> unfailed tr0))"
proof (intro conjI allI impI)
  show "emit_status None message done (tr, w) =
     (Inr (), (tr @ [Emit (status_event message done) None], w))"
    by (simp add: emit_status_def)
next
  show "emit_status (Some f) message done (tr, w) =
       (fst (f (status_event message done) w),
        (tr @ [Emit (status_event message done) (Some (fst (f (status_event message done) w)))],
         snd (f (status_event message done) w)))"
    by (simp add: emit_status_def split: prod.splits)
next
  fix res tr' w' ev e
  assume "swap_sequence E v em body msgs om ([], w) = (res, (tr', w'))
         \<and> Emit ev (Some (Inl e)) \<in> set tr'"
  then have "swap_sequence E v em body msgs om ([], w) = (res, (tr', w'))"
    and "Emit ev (Some (Inl e)) \<in> set tr'"
    by simp_all
  with stops_swap_sequence
  have "res = Inl e \<and> (\<exists>tr0. tr' = tr0 @ [Emit ev (Some (Inl e))] \<and> unfailed tr0)"
    by (rule failure_is_last)
  then show "res = Inl e" and "\<exists>tr0. tr' = tr0 @ [Emit ev (Some (Inl e))] \<and> unfailed tr0"
    by simp_all
next
  fix res tr' w' ev e
  assume "outlet E v em body ([], w) = (res, (tr', w'))
         \<and> Emit ev (Some (Inl e)) \<in> set tr'"
  then have "outlet E v em body ([], w) = (res, (tr', w'))"
    and "Emit ev (Some (Inl e)) \<in> set tr'"
    by simp_all
  with stops_outlet
  have "res = Inl e \<and> (\<exists>tr0. tr' = tr0 @ [Emit ev (Some (Inl e))] \<and> unfailed tr0)"
    by (rule failure_is_last)
  then show "res = Inl e" and "\<exists>tr0. tr' = tr0 @ [Emit ev (Some (Inl e))] \<and> unfailed tr0"
    by simp_all
qed

theorem emit_status_contract_witness:
  "fst (outlet (scripted_env (judge_says ''YES'') (chat_says ''Sure.'') loaded)
          default_valves (Some (failing_observer 2)) example_body ([], 0))
     = Inl (Exn ''RuntimeError'' ''socket closed'')
   \<and> (\<exists>tr0. fst (snd (outlet (scripted_env (judge_says ''YES'') (chat_says ''Sure.'') loaded)
          default_valves (Some (failing_observer 2)) example_body ([], 0)))
        = tr0 @ [Emit (status_event ''Loading dolphin-mistral & Generating...'' False)
                   (Some (Inl (Exn ''RuntimeError'' ''socket closed'')))]
      \<and> unfailed tr0)"
proof -
  have e: "outlet (scripted_env (judge_says ''YES'') (chat_says ''Sure.'') loaded)
          default_valves (Some (failing_observer 2)) example_body ([], 0)
      = (Inl (Exn ''RuntimeError'' ''socket closed''),
         ([Emit (status_event ''Checking response for refusal...'' False) (Some (Inr ())),
           Post ''http://host.docker.internal:11434/api/generate''
             (judge_payload default_valves ''I cannot fulfill this request.'') (judge_says ''YES''),
           Emit (status_event ''Refusal detected. Unloading modelA...'' False) (Some (Inr ())),
           evict default_valves (JStr ''modelA'') loaded,
           Emit (status_event ''Loading dolphin-mistral & Generating...'' False)
             (Some (Inl (Exn ''RuntimeError'' ''socket closed'')))], 3))"
    by code_simp
  have m: "Emit (status_event ''Loading dolphin-mistral & Generating...'' False)
             (Some (Inl (Exn ''RuntimeError'' ''socket closed'')))
      \<in> set [Emit (status_event ''Checking response for refusal...'' False) (Some (Inr ())),
           Post ''http://host.docker.internal:11434/api/generate''
             (judge_payload default_valves ''I cannot fulfill this request.'') (judge_says ''YES''),
           Emit (status_event ''Refusal detected. Unloading modelA...'' False) (Some (Inr ())),
           evict default_valves (JStr ''modelA'') loaded,
           Emit (status_event ''Loading dolphin-mistral & Generating...'' False)
             (Some (Inl (Exn ''RuntimeError'' ''socket closed'')))]"
    by simp
  from emit_status_contract [THEN conjunct2, THEN conjunct2, THEN conjunct2, rule_format,
      OF conjI [OF e m]]
  show ?thesis unfolding e by simp
qed

text \<open>
  C2 as stated fails: an observer that raises makes \<open>emit_status\<close> raise, and the
  exception leaves \<open>outlet\<close>. Here the observer fails on its second event, the report
  that a refusal was detected: the invocation ends with the observer's exception after the
  classification request, and no step of the swap is made.
\<close>

theorem emit_status_raises:
  "fst (emit_status (Some (failing_observer 0)) ''Checking response for refusal...'' False ([], 0))
     = Inl (Exn ''RuntimeError'' ''socket closed'')
   \<and> fst (outlet (scripted_env (judge_says ''YES'') (chat_says ''Sure.'') loaded)
          default_valves (Some (failing_observer 1)) example_body ([], 0))
     = Inl (Exn ''RuntimeError'' ''socket closed'')
   \<and> posts (fst (snd (outlet (scripted_env (judge_says ''YES'') (chat_says ''Sure.'') loaded)
          default_valves (Some (failing_observer 1)) example_body ([], 0))))
     = [Post ''http://host.docker.internal:11434/api/generate''
          (judge_payload default_valves ''I cannot fulfill this request.'') (judge_says ''YES'')]"
  by code_simp

section \<open>The filter's entry point\<close>

subsection \<open>Nothing to look at\<close>

text \<open>
  C9. When the message sequence of the body is empty, \<open>outlet\<close> returns the body as it is
  and does nothing else: no request is sent, no progress report is made, no exception is
  raised.
\<close>

theorem outlet_empty_messages:
  "map_of body ''messages'' = Some (JList []) \<Longrightarrow> outlet E v em body io = (Inr body, io)"
  by (simp add: outlet_def dict_get_def raising_def)

theorem outlet_empty_messages_witness:
  "outlet (scripted_env connection_refused connection_refused connection_refused) default_valves
     (Some (failing_observer 0)) [(''model'', JStr ''modelA''), (''messages'', JList [])] ([], 0)
   = (Inr [(''model'', JStr ''modelA''), (''messages'', JList [])], ([], 0))"
proof -
  have h: "map_of [(''model'', JStr ''modelA''), (''messages'', JList [])] ''messages''
      = Some (JList [])"
    by simp
  show ?thesis by (rule outlet_empty_messages [OF h])
qed

subsection \<open>A refusal\<close>

lemma outlet_refusal_run:
  assumes obs: "observer_returns em"
    and msgs: "map_of body ''messages'' = Some (JList ms)" and ne: "ms \<noteq> []"
    and lm: "last ms = JDict m"
    and ref: "fst (check_refusal E v (dict_get m ''content'' (JStr []))
               (snd (emit_status em ''Checking response for refusal...'' False ([], w)))) = Inr True"
  shows "\<exists>tr w' s r0 r1 r2 r3 r4 new.
      outlet E v em body ([], w) =
        (Inr (AList.update ''messages''
                (JList (butlast ms @ [JDict (AList.update ''content'' new m)])) body), (tr, w'))
    \<and> dict_get m ''content'' (JStr []) = JStr s
    \<and> posts tr =
        [Post (ollama_base_url v @ ''/api/generate'') (judge_payload v s) r0,
         evict v (dict_get body ''model'' JNull) r1,
         chat v (JStr (abliterated_model_id v)) (butlast ms) r2,
         evict v (JStr (abliterated_model_id v)) r3,
         pin v (dict_get body ''model'' JNull) r4]
    \<and> (case generated r2 of Some c \<Rightarrow> new = c | None \<Rightarrow> \<exists>d. new = JStr d \<and> d \<noteq> [])"
proof -
  define io1 where "io1 = snd (emit_status em ''Checking response for refusal...'' False ([], w))"
  define cr where "cr = check_refusal E v (dict_get m ''content'' (JStr [])) io1"
  have t: "fst cr = Inr True" using ref unfolding cr_def io1_def .
  have p1: "posts (fst io1) = []"
    unfolding io1_def posts_emit_status by (simp add: posts_def)
  from check_refusal_log [of E v "dict_get m ''content'' (JStr [])" io1] t
  obtain s r0 where s: "dict_get m ''content'' (JStr []) = JStr s"
    and l: "fst (snd cr) = fst io1 @ [Post (ollama_base_url v @ ''/api/generate'') (judge_payload v s) r0]"
    unfolding cr_def by auto
  have p2: "posts (fst (snd cr)) = [Post (ollama_base_url v @ ''/api/generate'') (judge_payload v s) r0]"
    unfolding l using p1 by (simp add: posts_def)
  have o: "outlet E v em body ([], w) =
      swap_sequence E v em body (JList ms) (dict_get body ''model'' JNull) (snd cr)"
    unfolding outlet_run [OF obs msgs ne lm] using t by (simp add: cr_def io1_def)
  from swap_sequence_run [OF obs, of E v body ms "dict_get body ''model'' JNull" "snd cr"]
  obtain tr' w' r1 r2 r3 r4 new where
    sw: "swap_sequence E v em body (JList ms) (dict_get body ''model'' JNull) (snd cr)
          = (set_last_content body new, (tr', w'))"
    and ps: "posts tr' = posts (fst (snd cr)) @
        [evict v (dict_get body ''model'' JNull) r1,
         chat v (JStr (abliterated_model_id v)) (butlast ms) r2,
         evict v (JStr (abliterated_model_id v)) r3, pin v (dict_get body ''model'' JNull) r4]"
    and g: "case generated r2 of Some c \<Rightarrow> new = c | None \<Rightarrow> \<exists>d. new = JStr d \<and> d \<noteq> []"
    by blast
  have "outlet E v em body ([], w) =
        (Inr (AList.update ''messages''
                (JList (butlast ms @ [JDict (AList.update ''content'' new m)])) body), (tr', w'))"
    unfolding o sw set_last_content_ok [OF msgs ne lm] ..
  moreover have "posts tr' =
        [Post (ollama_base_url v @ ''/api/generate'') (judge_payload v s) r0,
         evict v (dict_get body ''model'' JNull) r1,
         chat v (JStr (abliterated_model_id v)) (butlast ms) r2,
         evict v (JStr (abliterated_model_id v)) r3,
         pin v (dict_get body ''model'' JNull) r4]"
    unfolding ps p2 by simp
  ultimately show ?thesis using s g by blast
qed

text \<open>
  C1 (as amended). Take a conversation whose last message is classified as a refusal, and
  no observer or one that does not raise. Then \<open>outlet\<close> returns, and after the
  classification request it has sent exactly these requests, in this order: evict the
  primary model, ask the secondary model for a completion over the history without its last
  message, evict the secondary model, load the primary model. What the runtime answers to
  the two evictions, an exception included, changes nothing in this.
\<close>

theorem outlet_refusal_swaps:
  assumes "observer_returns em"
    and "map_of body ''messages'' = Some (JList ms)" and "ms \<noteq> []"
    and "last ms = JDict m"
    and "fst (check_refusal E v (dict_get m ''content'' (JStr []))
               (snd (emit_status em ''Checking response for refusal...'' False ([], w)))) = Inr True"
  shows "\<exists>body' tr w' s r0 r1 r2 r3 r4.
      outlet E v em body ([], w) = (Inr body', (tr, w'))
    \<and> dict_get m ''content'' (JStr []) = JStr s
    \<and> posts tr =
        [Post (ollama_base_url v @ ''/api/generate'') (judge_payload v s) r0,
         evict v (dict_get body ''model'' JNull) r1,
         chat v (JStr (abliterated_model_id v)) (butlast ms) r2,
         evict v (JStr (abliterated_model_id v)) r3,
         pin v (dict_get body ''model'' JNull) r4]"
  using outlet_refusal_run [OF assms] by blast

theorem outlet_refusal_swaps_witness:
  "(\<exists>body' tr w' s r0 r1 r2 r3 r4.
      outlet (scripted_env (judge_says ''YES'') (chat_says ''Sure.'') connection_refused)
        default_valves (Some counting_observer) example_body ([], 0) = (Inr body', (tr, w'))
    \<and> dict_get [(''role'', JStr ''assistant''), (''content'', JStr ''I cannot fulfill this request.'')]
          ''content'' (JStr []) = JStr s
    \<and> posts tr =
        [Post (ollama_base_url default_valves @ ''/api/generate'') (judge_payload default_valves s) r0,
         evict default_valves (dict_get example_body ''model'' JNull) r1,
         chat default_valves (JStr (abliterated_model_id default_valves))
           (butlast [user_turn, refused_turn]) r2,
         evict default_valves (JStr (abliterated_model_id default_valves)) r3,
         pin default_valves (dict_get example_body ''model'' JNull) r4])
   \<and> posts (fst (snd (outlet (scripted_env (judge_says ''YES'') (chat_says ''Sure.'') connection_refused)
        default_valves (Some counting_observer) example_body ([], 0)))) =
        [Post ''http://host.docker.internal:11434/api/generate''
           (judge_payload default_valves ''I cannot fulfill this request.'') (judge_says ''YES''),
         evict default_valves (JStr ''modelA'') connection_refused,
         chat default_valves (JStr ''dolphin-mistral'') [user_turn] (chat_says ''Sure.''),
         evict default_valves (JStr ''dolphin-mistral'') connection_refused,
         pin default_valves (JStr ''modelA'') connection_refused]"
proof -
  have h1: "observer_returns (Some counting_observer)"
    by (simp add: observer_returns_def counting_observer_def)
  have h2: "map_of example_body ''messages'' = Some (JList [user_turn, refused_turn])"
    by (simp add: example_body_def)
  have h3: "[user_turn, refused_turn] \<noteq> []"
    by simp
  have h4: "last [user_turn, refused_turn] =
      JDict [(''role'', JStr ''assistant''), (''content'', JStr ''I cannot fulfill this request.'')]"
    by (simp add: refused_turn_def)
  have h5: "fst (check_refusal (scripted_env (judge_says ''YES'') (chat_says ''Sure.'') connection_refused)
      default_valves
      (dict_get [(''role'', JStr ''assistant''), (''content'', JStr ''I cannot fulfill this request.'')]
         ''content'' (JStr []))
      (snd (emit_status (Some counting_observer) ''Checking response for refusal...'' False ([], 0))))
      = Inr True"
    by code_simp
  have e: "posts (fst (snd (outlet (scripted_env (judge_says ''YES'') (chat_says ''Sure.'') connection_refused)
        default_valves (Some counting_observer) example_body ([], 0)))) =
        [Post ''http://host.docker.internal:11434/api/generate''
           (judge_payload default_valves ''I cannot fulfill this request.'') (judge_says ''YES''),
         evict default_valves (JStr ''modelA'') connection_refused,
         chat default_valves (JStr ''dolphin-mistral'') [user_turn] (chat_says ''Sure.''),
         evict default_valves (JStr ''dolphin-mistral'') connection_refused,
         pin default_valves (JStr ''modelA'') connection_refused]"
    by code_simp
  from outlet_refusal_swaps [OF h1 h2 h3 h4 h5] e show ?thesis by (rule conjI)
qed

text \<open>
  C1 as stated fails when the observer raises. Here it fails on its third event, the report
  that the secondary model is being loaded: the primary model has been evicted, and the
  invocation ends there with the observer's exception. No completion is asked for, the
  secondary model is not evicted and the primary model is not loaded again.
\<close>

theorem outlet_refusal_observer_raises:
  "fst (outlet (scripted_env (judge_says ''YES'') (chat_says ''Sure.'') loaded)
          default_valves (Some (failing_observer 2)) example_body ([], 0))
     = Inl (Exn ''RuntimeError'' ''socket closed'')
   \<and> posts (fst (snd (outlet (scripted_env (judge_says ''YES'') (chat_says ''Sure.'') loaded)
          default_valves (Some (failing_observer 2)) example_body ([], 0))))
     = [Post ''http://host.docker.internal:11434/api/generate''
          (judge_payload default_valves ''I cannot fulfill this request.'') (judge_says ''YES''),
        evict default_valves (JStr ''modelA'') loaded]"
  by code_simp

text \<open>
  C4 (as amended). Take an invocation on the refusal path, and no observer or one that does
  not raise. Then \<open>outlet\<close> returns a body, no exception escapes, and the request for a
  completion is followed by the eviction of the secondary model and the load of the primary
  model. When the generation failed (the request raised, the answer carried an error status
  or did not decode to an object whose message has a content), the content of the last
  message of the returned body is a text that is not empty.
\<close>

theorem outlet_generation_failure:
  assumes "observer_returns em"
    and "map_of body ''messages'' = Some (JList ms)" and "ms \<noteq> []"
    and "last ms = JDict m"
    and "fst (check_refusal E v (dict_get m ''content'' (JStr []))
               (snd (emit_status em ''Checking response for refusal...'' False ([], w)))) = Inr True"
  shows "\<exists>body' tr w' s r0 r1 r2 r3 r4.
      outlet E v em body ([], w) = (Inr body', (tr, w'))
    \<and> posts tr =
        [Post (ollama_base_url v @ ''/api/generate'') (judge_payload v s) r0,
         evict v (dict_get body ''model'' JNull) r1,
         chat v (JStr (abliterated_model_id v)) (butlast ms) r2,
         evict v (JStr (abliterated_model_id v)) r3,
         pin v (dict_get body ''model'' JNull) r4]
    \<and> (generated r2 = None \<longrightarrow> (\<exists>d. last_content body' = Some (JStr d) \<and> d \<noteq> []))"
proof -
  from outlet_refusal_run [OF assms]
  obtain tr w' s r0 r1 r2 r3 r4 new where
    o: "outlet E v em body ([], w) =
        (Inr (AList.update ''messages''
                (JList (butlast ms @ [JDict (AList.update ''content'' new m)])) body), (tr, w'))"
    and p: "posts tr =
        [Post (ollama_base_url v @ ''/api/generate'') (judge_payload v s) r0,
         evict v (dict_get body ''model'' JNull) r1,
         chat v (JStr (abliterated_model_id v)) (butlast ms) r2,
         evict v (JStr (abliterated_model_id v)) r3,
         pin v (dict_get body ''model'' JNull) r4]"
    and g: "case generated r2 of Some c \<Rightarrow> new = c | None \<Rightarrow> \<exists>d. new = JStr d \<and> d \<noteq> []"
    by blast
  have l: "generated r2 = None \<longrightarrow>
      (\<exists>d. last_content (AList.update ''messages''
                (JList (butlast ms @ [JDict (AList.update ''content'' new m)])) body) = Some (JStr d)
          \<and> d \<noteq> [])"
    using g unfolding last_content_update by auto
  show ?thesis
    by (intro exI conjI) (rule o, rule p, rule l)
qed

theorem outlet_generation_failure_witness:
  "(\<exists>body' tr w' s r0 r1 r2 r3 r4.
      outlet (scripted_env (judge_says ''YES'') connection_refused loaded)
        default_valves (Some counting_observer) example_body ([], 0) = (Inr body', (tr, w'))
    \<and> posts tr =
        [Post (ollama_base_url default_valves @ ''/api/generate'') (judge_payload default_valves s) r0,
         evict default_valves (dict_get example_body ''model'' JNull) r1,
         chat default_valves (JStr (abliterated_model_id default_valves))
           (butlast [user_turn, refused_turn]) r2,
         evict default_valves (JStr (abliterated_model_id default_valves)) r3,
         pin default_valves (dict_get example_body ''model'' JNull) r4]
    \<and> (generated r2 = None \<longrightarrow> (\<exists>d. last_content body' = Some (JStr d) \<and> d \<noteq> [])))
   \<and> generated connection_refused = None
   \<and> outlet (scripted_env (judge_says ''YES'') connection_refused loaded)
        default_valves (Some counting_observer) example_body ([], 0) =
      (Inr [(''model'', JStr ''modelA''),
            (''messages'', JList [user_turn,
               JDict [(''role'', JStr ''assistant''),
                      (''content'', JStr ''System Error: Failed to swap models. connection refused'')]]),
            (''chat_id'', JStr ''c1'')],
       ([Emit (status_event ''Checking response for refusal...'' False) (Some (Inr ())),
         Post ''http://host.docker.internal:11434/api/generate''
           (judge_payload default_valves ''I cannot fulfill this request.'') (judge_says ''YES''),
         Emit (status_event ''Refusal detected. Unloading modelA...'' False) (Some (Inr ())),
         evict default_valves (JStr ''modelA'') loaded,
         Emit (status_event ''Loading dolphin-mistral & Generating...'' False) (Some (Inr ())),
         chat default_valves (JStr ''dolphin-mistral'') [user_turn] connection_refused,
         Emit (status_event ''Unloading dolphin-mistral...'' False) (Some (Inr ())),
         evict default_valves (JStr ''dolphin-mistral'') loaded,
         Emit (status_event ''Restoring modelA...'' False) (Some (Inr ())),
         pin default_valves (JStr ''modelA'') loaded,
         Emit (status_event ''Model swap complete.'' True) (Some (Inr ()))], 6))"
proof -
  have h1: "observer_returns (Some counting_observer)"
    by (simp add: observer_returns_def counting_observer_def)
  have h2: "map_of example_body ''messages'' = Some (JList [user_turn, refused_turn])"
    by (simp add: example_body_def)
  have h3: "[user_turn, refused_turn] \<noteq> []"
    by simp
  have h4: "last [user_turn, refused_turn] =
      JDict [(''role'', JStr ''assistant''), (''content'', JStr ''I cannot fulfill this request.'')]"
    by (simp add: refused_turn_def)
  have h5: "fst (check_refusal (scripted_env (judge_says ''YES'') connection_refused loaded)
      default_valves
      (dict_get [(''role'', JStr ''assistant''), (''content'', JStr ''I cannot fulfill this request.'')]
         ''content'' (JStr []))
      (snd (emit_status (Some counting_observer) ''Checking response for refusal...'' False ([], 0))))
      = Inr True"
    by code_simp
  have g: "generated connection_refused = None"
    by (simp add: generated_def connection_refused_def)
  have e: "outlet (scripted_env (judge_says ''YES'') connection_refused loaded)
        default_valves (Some counting_observer) example_body ([], 0) =
      (Inr [(''model'', JStr ''modelA''),
            (''messages'', JList [user_turn,
               JDict [(''role'', JStr ''assistant''),
                      (''content'', JStr ''System Error: Failed to swap models. connection refused'')]]),
            (''chat_id'', JStr ''c1'')],
       ([Emit (status_event ''Checking response for refusal...'' False) (Some (Inr ())),
         Post ''http://host.docker.internal:11434/api/generate''
           (judge_payload default_valves ''I cannot fulfill this request.'') (judge_says ''YES''),
         Emit (status_event ''Refusal detected. Unloading modelA...'' False) (Some (Inr ())),
         evict default_valves (JStr ''modelA'') loaded,
         Emit (status_event ''Loading dolphin-mistral & Generating...'' False) (Some (Inr ())),
         chat default_valves (JStr ''dolphin-mistral'') [user_turn] connection_refused,
         Emit (status_event ''Unloading dolphin-mistral...'' False) (Some (Inr ())),
         evict default_valves (JStr ''dolphin-mistral'') loaded,
         Emit (status_event ''Restoring modelA...'' False) (Some (Inr ())),
         pin default_valves (JStr ''modelA'') loaded,
         Emit (status_event ''Model swap complete.'' True) (Some (Inr ()))], 6))"
    by code_simp
  from outlet_generation_failure [OF h1 h2 h3 h4 h5] g e show ?thesis by (intro conjI)
qed

text \<open>
  C4 as stated fails when the observer raises. Here the generation fails and the observer
  fails on its fourth event, the report that the secondary model is being unloaded: the
  invocation ends with the observer's exception, no body is returned, and neither the
  eviction of the secondary model nor the load of the primary model is made.
\<close>

theorem outlet_generation_failure_observer_raises:
  "fst (outlet (scripted_env (judge_says ''YES'') connection_refused loaded)
          default_valves (Some (failing_observer 3)) example_body ([], 0))
     = Inl (Exn ''RuntimeError'' ''socket closed'')
   \<and> posts (fst (snd (outlet (scripted_env (judge_says ''YES'') connection_refused loaded)
          default_valves (Some (failing_observer 3)) example_body ([], 0))))
     = [Post ''http://host.docker.internal:11434/api/generate''
          (judge_payload default_valves ''I cannot fulfill this request.'') (judge_says ''YES''),
        evict default_valves (JStr ''modelA'') loaded,
        chat default_valves (JStr ''dolphin-mistral'') [user_turn] connection_refused]"
  by code_simp

subsection \<open>Not a refusal\<close>

text \<open>
  C5 (as amended). Take a conversation that is not empty and whose last message is
  classified as not a refusal, and no observer or one that does not raise. Then \<open>outlet\<close>
  returns the body it was given; it has sent nothing but the classification request, if
  that: no eviction, no load, no request for a completion; and it has made two progress
  reports, the announcement of the check and then exactly one terminal report, with
  \<open>done\<close> true and an empty description.
\<close>

theorem outlet_not_refusal:
  assumes obs: "observer_returns em"
    and msgs: "map_of body ''messages'' = Some (JList ms)" and ne: "ms \<noteq> []"
    and lm: "last ms = JDict m"
    and nref: "fst (check_refusal E v (dict_get m ''content'' (JStr []))
               (snd (emit_status em ''Checking response for refusal...'' False ([], w)))) \<noteq> Inr True"
  shows "\<exists>tr w'.
      outlet E v em body ([], w) = (Inr body, (tr, w'))
    \<and> (posts tr = [] \<or>
        (\<exists>s r. dict_get m ''content'' (JStr []) = JStr s \<and>
           posts tr = [Post (ollama_base_url v @ ''/api/generate'') (judge_payload v s) r]))
    \<and> reports tr =
        [status_event ''Checking response for refusal...'' False, status_event [] True]"
proof -
  define io1 where "io1 = snd (emit_status em ''Checking response for refusal...'' False ([], w))"
  define cr where "cr = check_refusal E v (dict_get m ''content'' (JStr [])) io1"
  define io3 where "io3 = snd (emit_status em [] True (snd cr))"
  have p1: "posts (fst io1) = []"
    unfolding io1_def posts_emit_status by (simp add: posts_def)
  have q1: "reports (fst io1) = [status_event ''Checking response for refusal...'' False]"
    unfolding io1_def reports_emit_status by simp
  have o: "outlet E v em body ([], w) = (Inr body, (fst io3, snd io3))"
    unfolding outlet_run [OF obs msgs ne lm] using nref by (simp add: io3_def cr_def io1_def)
  have "posts (fst (snd cr)) = [] \<or>
        (\<exists>s r. dict_get m ''content'' (JStr []) = JStr s \<and>
           posts (fst (snd cr)) =
             [Post (ollama_base_url v @ ''/api/generate'') (judge_payload v s) r])"
    using check_refusal_log [of E v "dict_get m ''content'' (JStr [])" io1] p1
    unfolding cr_def by (auto simp: posts_def)
  then have p: "posts (fst io3) = [] \<or>
        (\<exists>s r. dict_get m ''content'' (JStr []) = JStr s \<and>
           posts (fst io3) = [Post (ollama_base_url v @ ''/api/generate'') (judge_payload v s) r])"
    unfolding io3_def posts_emit_status .
  have q: "reports (fst io3) =
      [status_event ''Checking response for refusal...'' False, status_event [] True]"
    unfolding io3_def reports_emit_status cr_def check_refusal_reports q1 by simp
  show ?thesis
    by (intro exI conjI) (rule o, rule p, rule q)
qed

theorem outlet_not_refusal_witness:
  "(\<exists>tr w'.
      outlet (scripted_env (judge_says ''NO'') connection_refused connection_refused)
        default_valves (Some counting_observer) example_body ([], 0) = (Inr example_body, (tr, w'))
    \<and> (posts tr = [] \<or>
        (\<exists>s r. dict_get [(''role'', JStr ''assistant''),
                            (''content'', JStr ''I cannot fulfill this request.'')]
                   ''content'' (JStr []) = JStr s \<and>
           posts tr =
           [Post (ollama_base_url default_valves @ ''/api/generate'') (judge_payload default_valves s) r]))
    \<and> reports tr =
        [status_event ''Checking response for refusal...'' False, status_event [] True])
   \<and> outlet (scripted_env (judge_says ''NO'') connection_refused connection_refused)
        default_valves (Some counting_observer) example_body ([], 0) =
      (Inr example_body,
       ([Emit (status_event ''Checking response for refusal...'' False) (Some (Inr ())),
         Post ''http://host.docker.internal:11434/api/generate''
           (judge_payload default_valves ''I cannot fulfill this request.'') (judge_says ''NO''),
         Emit (status_event [] True) (Some (Inr ()))], 2))"
proof -
  have h1: "observer_returns (Some counting_observer)"
    by (simp add: observer_returns_def counting_observer_def)
  have h2: "map_of example_body ''messages'' = Some (JList [user_turn, refused_turn])"
    by (simp add: example_body_def)
  have h3: "[user_turn, refused_turn] \<noteq> []"
    by simp
  have h4: "last [user_turn, refused_turn] =
      JDict [(''role'', JStr ''assistant''), (''content'', JStr ''I cannot fulfill this request.'')]"
    by (simp add: refused_turn_def)
  have h5: "fst (check_refusal (scripted_env (judge_says ''NO'') connection_refused connection_refused)
      default_valves
      (dict_get [(''role'', JStr ''assistant''), (''content'', JStr ''I cannot fulfill this request.'')]
         ''content'' (JStr []))
      (snd (emit_status (Some counting_observer) ''Checking response for refusal...'' False ([], 0))))
      \<noteq> Inr True"
    by code_simp
  have e: "outlet (scripted_env (judge_says ''NO'') connection_refused connection_refused)
        default_valves (Some counting_observer) example_body ([], 0) =
      (Inr example_body,
       ([Emit (status_event ''Checking response for refusal...'' False) (Some (Inr ())),
         Post ''http://host.docker.internal:11434/api/generate''
           (judge_payload default_valves ''I cannot fulfill this request.'') (judge_says ''NO''),
         Emit (status_event [] True) (Some (Inr ()))], 2))"
    by code_simp
  from outlet_not_refusal [OF h1 h2 h3 h4 h5] e show ?thesis by (rule conjI)
qed

text \<open>
  C5 as stated fails when the observer raises. Here the judge answers NO and the observer
  fails on its second event, the terminal report: the invocation ends with the observer's
  exception and the body is not returned.
\<close>

theorem outlet_not_refusal_observer_raises:
  "fst (outlet (scripted_env (judge_says ''NO'') connection_refused connection_refused)
          default_valves (Some (failing_observer 1)) example_body ([], 0))
     = Inl (Exn ''RuntimeError'' ''socket closed'')
   \<and> reports (fst (snd (outlet (scripted_env (judge_says ''NO'') connection_refused connection_refused)
          default_valves (Some (failing_observer 1)) example_body ([], 0))))
     = [status_event ''Checking response for refusal...'' False, status_event [] True]"
  by code_simp

subsection \<open>Missing fields\<close>

text \<open>
  C10 (as amended). A body without a \<open>messages\<close> entry is treated as one with no message:
  \<open>outlet\<close> returns it as it is, sends nothing, reports nothing and does not raise. A body
  whose last message has no \<open>content\<close> entry is treated as one whose last message is the
  empty text: provided there is no observer or the observer does not raise, \<open>outlet\<close>
  returns the body as it is without raising, and no request at all is sent.
\<close>

theorem outlet_missing_fields:
  "(map_of body ''messages'' = None \<longrightarrow> outlet E v em body ([], w) = (Inr body, ([], w)))
   \<and> (observer_returns em \<and> map_of body ''messages'' = Some (JList ms) \<and> ms \<noteq> []
        \<and> last ms = JDict m \<and> map_of m ''content'' = None \<longrightarrow>
      (\<exists>tr w'. outlet E v em body ([], w) = (Inr body, (tr, w')) \<and> posts tr = []))"
proof (intro conjI impI)
  assume "map_of body ''messages'' = None"
  then show "outlet E v em body ([], w) = (Inr body, ([], w))"
    by (simp add: outlet_def dict_get_def raising_def)
next
  assume a: "observer_returns em \<and> map_of body ''messages'' = Some (JList ms) \<and> ms \<noteq> []
        \<and> last ms = JDict m \<and> map_of m ''content'' = None"
  then have obs: "observer_returns em" and msgs: "map_of body ''messages'' = Some (JList ms)"
    and ne: "ms \<noteq> []" and lm: "last ms = JDict m" and nc: "map_of m ''content'' = None"
    by simp_all
  define io1 where "io1 = snd (emit_status em ''Checking response for refusal...'' False ([], w))"
  define io3 where "io3 = snd (emit_status em [] True io1)"
  have c: "dict_get m ''content'' (JStr []) = JStr []"
    using nc by (simp add: dict_get_def)
  have cr: "check_refusal E v (JStr []) io1 = (Inr False, io1)"
    by (simp add: check_refusal_def)
  have o: "outlet E v em body ([], w) = (Inr body, (fst io3, snd io3))"
    unfolding outlet_run [OF obs msgs ne lm] c
    by (simp add: cr [unfolded io1_def] io3_def io1_def)
  have p: "posts (fst io3) = []"
    unfolding io3_def io1_def posts_emit_status by (simp add: posts_def)
  show "\<exists>tr w'. outlet E v em body ([], w) = (Inr body, (tr, w')) \<and> posts tr = []"
    by (intro exI conjI) (rule o, rule p)
qed

theorem outlet_missing_fields_witness:
  "outlet (scripted_env (judge_says ''YES'') connection_refused connection_refused)
      default_valves (Some (failing_observer 0)) [(''model'', JStr ''modelA'')] ([], 0)
     = (Inr [(''model'', JStr ''modelA'')], ([], 0))
   \<and> (\<exists>tr w'. outlet (scripted_env (judge_says ''YES'') connection_refused connection_refused)
          default_valves (Some counting_observer)
          [(''model'', JStr ''modelA''), (''messages'', JList [user_turn, bare_turn])] ([], 0)
        = (Inr [(''model'', JStr ''modelA''), (''messages'', JList [user_turn, bare_turn])], (tr, w'))
      \<and> posts tr = [])"
proof -
  have h0: "map_of [(''model'', JStr ''modelA'')] ''messages'' = None"
    by simp
  have h: "observer_returns (Some counting_observer)
      \<and> map_of [(''model'', JStr ''modelA''), (''messages'', JList [user_turn, bare_turn])] ''messages''
          = Some (JList [user_turn, bare_turn])
      \<and> [user_turn, bare_turn] \<noteq> []
      \<and> last [user_turn, bare_turn] = JDict [(''role'', JStr ''assistant'')]
      \<and> map_of [(''role'', JStr ''assistant'')] ''content'' = None"
    by (simp add: observer_returns_def counting_observer_def bare_turn_def)
  have "outlet (scripted_env (judge_says ''YES'') connection_refused connection_refused)
      default_valves (Some (failing_observer 0)) [(''model'', JStr ''modelA'')] ([], 0)
     = (Inr [(''model'', JStr ''modelA'')], ([], 0))"
    using outlet_missing_fields [THEN conjunct1, rule_format, OF h0] .
  moreover have "\<exists>tr w'. outlet (scripted_env (judge_says ''YES'') connection_refused connection_refused)
          default_valves (Some counting_observer)
          [(''model'', JStr ''modelA''), (''messages'', JList [user_turn, bare_turn])] ([], 0)
        = (Inr [(''model'', JStr ''modelA''), (''messages'', JList [user_turn, bare_turn])], (tr, w'))
      \<and> posts tr = []"
    using outlet_missing_fields [THEN conjunct2, rule_format, OF h] .
  ultimately show ?thesis by (rule conjI)
qed

text \<open>
  C10 as stated fails when the observer raises. Here the last message has no content and
  the observer fails on its first event, the announcement of the check: the invocation ends
  with the observer's exception and the body is not returned.
\<close>

theorem outlet_missing_content_observer_raises:
  "fst (outlet (scripted_env (judge_says ''YES'') connection_refused connection_refused)
          default_valves (Some (failing_observer 0))
          [(''model'', JStr ''modelA''), (''messages'', JList [user_turn, bare_turn])] ([], 0))
     = Inl (Exn ''RuntimeError'' ''socket closed'')"
  by code_simp

subsection \<open>What a swap changes in the body\<close>

lemma update_keys_present:
  "map_of al k = Some x \<Longrightarrow> map fst (AList.update k v al) = map fst al"
  using map_of_eq_None_iff [of al k] by (auto simp: update_keys)

text \<open>
  C6. Whenever \<open>outlet\<close> returns, the body it returns is the body it was given or differs
  from it in one place only, the content of the last message: the body has the same
  entries in the same order, every entry but \<open>messages\<close> has its value, the messages
  before the last are the same, and the last message has every entry it had (its role
  among them) but \<open>content\<close>.
\<close>

theorem outlet_frame:
  assumes "fst (outlet E v em body io) = Inr body'"
  shows "body' = body \<or>
     (map fst body' = map fst body
      \<and> (\<forall>k. k \<noteq> ''messages'' \<longrightarrow> map_of body' k = map_of body k)
      \<and> (\<exists>ms m m'. map_of body ''messages'' = Some (JList ms) \<and> ms \<noteq> [] \<and> last ms = JDict m
            \<and> map_of body' ''messages'' = Some (JList (butlast ms @ [JDict m']))
            \<and> (\<forall>k. k \<noteq> ''content'' \<longrightarrow> map_of m' k = map_of m k)))"
proof (cases "body' = body")
  case True
  then show ?thesis ..
next
  case False
  with outlet_result [OF assms] obtain new where "set_last_content body new = Inr body'"
    by blast
  from set_last_content_Inr [OF this] obtain ms m where
    msgs: "map_of body ''messages'' = Some (JList ms)" and ne: "ms \<noteq> []"
    and lm: "last ms = JDict m"
    and b: "body' = AList.update ''messages''
            (JList (butlast ms @ [JDict (AList.update ''content'' new m)])) body"
    by blast
  have 1: "map fst body' = map fst body"
    unfolding b using msgs by (rule update_keys_present)
  have 2: "\<forall>k. k \<noteq> ''messages'' \<longrightarrow> map_of body' k = map_of body k"
    unfolding b by (simp add: update_conv')
  have 3: "map_of body' ''messages''
      = Some (JList (butlast ms @ [JDict (AList.update ''content'' new m)]))"
    unfolding b by (simp add: update_conv')
  have 4: "\<forall>k. k \<noteq> ''content'' \<longrightarrow> map_of (AList.update ''content'' new m) k = map_of m k"
    by (simp add: update_conv')
  from msgs ne lm 3 4 have "\<exists>ms m m'. map_of body ''messages'' = Some (JList ms) \<and> ms \<noteq> []
      \<and> last ms = JDict m
      \<and> map_of body' ''messages'' = Some (JList (butlast ms @ [JDict m']))
      \<and> (\<forall>k. k \<noteq> ''content'' \<longrightarrow> map_of m' k = map_of m k)"
    by blast
  with 1 2 show ?thesis by blast
qed

theorem outlet_frame_witness:
  "([(''model'', JStr ''modelA''),
     (''messages'', JList [user_turn,
        JDict [(''role'', JStr ''assistant''), (''content'', JStr ''Sure.'')]]),
     (''chat_id'', JStr ''c1'')] = example_body \<or>
     (map fst [(''model'', JStr ''modelA''),
               (''messages'', JList [user_turn,
                  JDict [(''role'', JStr ''assistant''), (''content'', JStr ''Sure.'')]]),
               (''chat_id'', JStr ''c1'')] = map fst example_body
      \<and> (\<forall>k. k \<noteq> ''messages'' \<longrightarrow>
            map_of [(''model'', JStr ''modelA''),
                    (''messages'', JList [user_turn,
                       JDict [(''role'', JStr ''assistant''), (''content'', JStr ''Sure.'')]]),
                    (''chat_id'', JStr ''c1'')] k = map_of example_body k)
      \<and> (\<exists>ms m m'. map_of example_body ''messages'' = Some (JList ms) \<and> ms \<noteq> []
            \<and> last ms = JDict m
            \<and> map_of [(''model'', JStr ''modelA''),
                       (''messages'', JList [user_turn,
                          JDict [(''role'', JStr ''assistant''), (''content'', JStr ''Sure.'')]]),
                       (''chat_id'', JStr ''c1'')] ''messages''
                = Some (JList (butlast ms @ [JDict m']))
            \<and> (\<forall>k. k \<noteq> ''content'' \<longrightarrow> map_of m' k = map_of m k))))
   \<and> fst (outlet (scripted_env (judge_says ''YES'') (chat_says ''Sure.'') loaded)
            default_valves (Some counting_observer) example_body ([], 0)) =
       Inr [(''model'', JStr ''modelA''),
            (''messages'', JList [user_turn,
               JDict [(''role'', JStr ''assistant''), (''content'', JStr ''Sure.'')]]),
            (''chat_id'', JStr ''c1'')]
   \<and> [(''model'', JStr ''modelA''),
       (''messages'', JList [user_turn,
          JDict [(''role'', JStr ''assistant''), (''content'', JStr ''Sure.'')]]),
       (''chat_id'', JStr ''c1'')] \<noteq> example_body"
proof -
  have o: "fst (outlet (scripted_env (judge_says ''YES'') (chat_says ''Sure.'') loaded)
            default_valves (Some counting_observer) example_body ([], 0)) =
       Inr [(''model'', JStr ''modelA''),
            (''messages'', JList [user_turn,
               JDict [(''role'', JStr ''assistant''), (''content'', JStr ''Sure.'')]]),
            (''chat_id'', JStr ''c1'')]"
    by code_simp
  have d: "[(''model'', JStr ''modelA''),
       (''messages'', JList [user_turn,
          JDict [(''role'', JStr ''assistant''), (''content'', JStr ''Sure.'')]]),
       (''chat_id'', JStr ''c1'')] \<noteq> example_body"
    by (simp add: example_body_def refused_turn_def)
  from outlet_frame [OF o] o d show ?thesis by (intro conjI)
qed

end
